theory Spec2Isabelle
  imports Complex_Main
begin

section \<open>Widget and layout types\<close>

text \<open>
  The widget types of \<^verbatim>\<open>types/widget\<close>: a closed union of six string literals, a
  widget instance, and a layout item in grid units. Optional fields of the TypeScript
  interfaces are \<open>option\<close> values. Grid units are integers; pixel quantities are reals.
\<close>

datatype WidgetType = Orderbook | Chart | TradeHistory | MarketSelector | Quote | Watchlist

fun typeName :: "WidgetType \<Rightarrow> string" where
  "typeName Orderbook = ''orderbook''"
| "typeName Chart = ''chart''"
| "typeName TradeHistory = ''trade-history''"
| "typeName MarketSelector = ''market-selector''"
| "typeName Quote = ''quote''"
| "typeName Watchlist = ''watchlist''"

record WidgetConfig =
  depth :: "int option"
  timeframe :: "string option"
  chartType :: "string option"
  tickers :: "string list option"

record WidgetInstance =
  widget_id :: string
  widget_type :: WidgetType
  ticker :: "string option"
  title :: string
  config :: WidgetConfig

record LayoutItem =
  item_i :: string
  item_x :: int
  item_y :: int
  item_w :: int
  item_h :: int
  minW :: "int option"
  minH :: "int option"
  maxW :: "int option"
  maxH :: "int option"
  static :: "bool option"

record 'a Layouts =
  lg :: "'a list"
  md :: "'a list"
  sm :: "'a list"

datatype Breakpoint = LG | MD | SM

fun layoutOf :: "'a Layouts \<Rightarrow> Breakpoint \<Rightarrow> 'a list" where
  "layoutOf ls LG = lg ls"
| "layoutOf ls MD = md ls"
| "layoutOf ls SM = sm ls"

fun setLayoutOf :: "Breakpoint \<Rightarrow> 'a list \<Rightarrow> 'a Layouts \<Rightarrow> 'a Layouts" where
  "setLayoutOf LG l ls = ls\<lparr>lg := l\<rparr>"
| "setLayoutOf MD l ls = ls\<lparr>md := l\<rparr>"
| "setLayoutOf SM l ls = ls\<lparr>sm := l\<rparr>"

record WidgetSize =
  size_w :: int
  size_h :: int
  size_minW :: int
  size_minH :: int

fun DEFAULT_WIDGET_SIZES :: "WidgetType \<Rightarrow> WidgetSize" where
  "DEFAULT_WIDGET_SIZES Orderbook = \<lparr>size_w = 3, size_h = 5, size_minW = 2, size_minH = 3\<rparr>"
| "DEFAULT_WIDGET_SIZES Chart = \<lparr>size_w = 5, size_h = 4, size_minW = 3, size_minH = 3\<rparr>"
| "DEFAULT_WIDGET_SIZES TradeHistory = \<lparr>size_w = 3, size_h = 4, size_minW = 2, size_minH = 3\<rparr>"
| "DEFAULT_WIDGET_SIZES MarketSelector = \<lparr>size_w = 3, size_h = 6, size_minW = 2, size_minH = 3\<rparr>"
| "DEFAULT_WIDGET_SIZES Quote = \<lparr>size_w = 3, size_h = 4, size_minW = 2, size_minH = 3\<rparr>"
| "DEFAULT_WIDGET_SIZES Watchlist = \<lparr>size_w = 3, size_h = 5, size_minW = 2, size_minH = 3\<rparr>"

text \<open>Decimal rendering of a non-negative integer, as a template literal prints \<^verbatim>\<open>Date.now()\<close>.\<close>

definition digitChar :: "nat \<Rightarrow> char" where
  "digitChar d = ''0123456789'' ! d"

function numberToString :: "nat \<Rightarrow> string" where
  "numberToString n =
     (if n < 10 then [digitChar n] else numberToString (n div 10) @ [digitChar (n mod 10)])"
  by pat_completeness auto
termination
  by (relation "measure (\<lambda>n. n)") auto

declare numberToString.simps [simp del]

section \<open>Rectangles and overlap\<close>

text \<open>
  Two rectangles overlap when their horizontal intervals \<open>[x, x+w)\<close> and their vertical
  intervals \<open>[y, y+h)\<close> both intersect. A layout is free of overlap when no two entries at
  different positions of the list overlap.
\<close>

definition overlap :: "LayoutItem \<Rightarrow> LayoutItem \<Rightarrow> bool" where
  "overlap a b \<longleftrightarrow>
     item_x a < item_x b + item_w b \<and> item_x a + item_w a > item_x b \<and>
     item_y a < item_y b + item_h b \<and> item_y a + item_h a > item_y b"

fun noOverlap :: "LayoutItem list \<Rightarrow> bool" where
  "noOverlap [] = True"
| "noOverlap (a # rest) = (list_all (\<lambda>b. \<not> overlap a b) rest \<and> noOverlap rest)"

section \<open>Placement\<close>

subsection \<open>\<^verbatim>\<open>findAvailablePosition\<close> of \<^verbatim>\<open>services/workspaceStore.ts\<close>\<close>

text \<open>The bottom edge of the lowest item: \<^verbatim>\<open>Math.max(...layout.map(l => l.y + l.h))\<close>.\<close>

definition bottomOf :: "LayoutItem list \<Rightarrow> int" where
  "bottomOf layout = Max (set (map (\<lambda>l. item_y l + item_h l) layout))"

definition findAvailablePosition :: "LayoutItem list \<Rightarrow> int \<times> int" where
  "findAvailablePosition layout =
     (if length layout = 0 then (0, 0)
      else let maxY = bottomOf layout in (0, maxY))"

subsection \<open>\<^verbatim>\<open>findNextPosition\<close> of the React workspace store\<close>

text \<open>
  The inner loop \<^verbatim>\<open>for (let x = 0; x <= 12 - newWidth; x++)\<close> over the occupied ranges of
  one row, and the outer loop \<^verbatim>\<open>for (let y = 0; y <= maxY; y++)\<close>; each returns at the
  first position that fits.
\<close>

definition fits :: "(int \<times> int) list \<Rightarrow> int \<Rightarrow> int \<Rightarrow> bool" where
  "fits occupiedRanges newWidth x \<longleftrightarrow>
     \<not> list_ex (\<lambda>(rstart, rend). x < rend \<and> x + newWidth > rstart) occupiedRanges"

function scanColumns :: "(int \<times> int) list \<Rightarrow> int \<Rightarrow> int \<Rightarrow> int option" where
  "scanColumns occupiedRanges newWidth x =
     (if x \<le> 12 - newWidth
      then (if fits occupiedRanges newWidth x then Some x
            else scanColumns occupiedRanges newWidth (x + 1))
      else None)"
  by pat_completeness auto
termination
  by (relation "measure (\<lambda>(rs, nw, x). nat (13 - nw - x))") auto

declare scanColumns.simps [simp del]

definition occupiedRangesOf :: "LayoutItem list \<Rightarrow> int \<Rightarrow> (int \<times> int) list" where
  "occupiedRangesOf layouts y =
     (let itemsInRow = filter (\<lambda>l. item_y l \<le> y \<and> item_y l + item_h l > y) layouts
      in map (\<lambda>l. (item_x l, item_x l + item_w l)) itemsInRow)"

function scanRows :: "LayoutItem list \<Rightarrow> int \<Rightarrow> int \<Rightarrow> int \<Rightarrow> (int \<times> int) option" where
  "scanRows layouts newWidth maxY y =
     (if y \<le> maxY
      then (case scanColumns (occupiedRangesOf layouts y) newWidth 0 of
              Some x \<Rightarrow> Some (x, y)
            | None \<Rightarrow> scanRows layouts newWidth maxY (y + 1))
      else None)"
  by pat_completeness auto
termination
  by (relation "measure (\<lambda>(ls, nw, maxY, y). nat (maxY + 1 - y))") auto

declare scanRows.simps [simp del]

definition findNextPosition :: "LayoutItem list \<Rightarrow> int \<Rightarrow> int \<times> int" where
  "findNextPosition layouts newWidth =
     (if length layouts = 0 then (0, 0)
      else let maxY = bottomOf layouts in
        (case scanRows layouts newWidth maxY 0 of
           Some p \<Rightarrow> p
         | None \<Rightarrow> (0, maxY)))"

section \<open>The workspace store (\<^verbatim>\<open>services/workspaceStore.ts\<close>)\<close>

text \<open>
  Layout items are JavaScript objects. \<^verbatim>\<open>addWidget\<close> puts one and the same object into the
  \<^verbatim>\<open>lg\<close>, \<^verbatim>\<open>md\<close> and \<^verbatim>\<open>sm\<close> arrays, and the grid component later assigns to the fields
  of that object in place, so the arrays are modelled as lists of references into a store of
  objects. A reference is an index into the list \<open>objects\<close>; allocation appends.
\<close>

type_synonym ref = nat

record WorkspaceState =
  widgets :: "WidgetInstance list"
  layouts :: "ref Layouts"
  currentTicker :: "string option"
  activeWidgetId :: "string option"

definition initialState :: WorkspaceState where
  "initialState = \<lparr>widgets = [], layouts = \<lparr>lg = [], md = [], sm = []\<rparr>,
     currentTicker = None, activeWidgetId = None\<rparr>"

text \<open>The items an array of references denotes, and the three arrays read by value.\<close>

definition itemsOf :: "LayoutItem list \<Rightarrow> ref list \<Rightarrow> LayoutItem list" where
  "itemsOf objs rs = map (\<lambda>r. objs ! r) rs"

definition derefLayouts :: "LayoutItem list \<Rightarrow> ref Layouts \<Rightarrow> LayoutItem Layouts" where
  "derefLayouts objs ls =
     \<lparr>lg = itemsOf objs (lg ls), md = itemsOf objs (md ls), sm = itemsOf objs (sm ls)\<rparr>"

text \<open>
  \<^verbatim>\<open>getWidgetTitle\<close>: the type name split at \<^verbatim>\<open>-\<close>, each word capitalised, joined by a
  blank; written out for the six type names. An absent or empty ticker is falsy.
\<close>

fun baseTitle :: "WidgetType \<Rightarrow> string" where
  "baseTitle Orderbook = ''Orderbook''"
| "baseTitle Chart = ''Chart''"
| "baseTitle TradeHistory = ''Trade History''"
| "baseTitle MarketSelector = ''Market Selector''"
| "baseTitle Quote = ''Quote''"
| "baseTitle Watchlist = ''Watchlist''"

definition getWidgetTitle :: "WidgetType \<Rightarrow> string option \<Rightarrow> string" where
  "getWidgetTitle type tk =
     (case tk of
        None \<Rightarrow> baseTitle type
      | Some t \<Rightarrow> if t = [] then baseTitle type else baseTitle type @ '' - '' @ t)"

section \<open>The grid component (\<^verbatim>\<open>GridLayout\<close>)\<close>

text \<open>
  What \<^verbatim>\<open>getBoundingClientRect\<close> and \<^verbatim>\<open>getComputedStyle\<close> report for the grid container
  (pixels), the placeholder element (its grid position and span, and whether its
  \<^verbatim>\<open>style.display\<close> is other than \<^verbatim>\<open>none\<close>), and the fields of the component.
  Fields that the class never initialises are \<open>None\<close> until a handler assigns them.
\<close>

record Geometry =
  rect_left :: real
  rect_top :: real
  rect_width :: real
  paddingLeft :: real
  paddingTop :: real
  paddingRight :: real

record Placeholder =
  ph_x :: int
  ph_y :: int
  ph_w :: int
  ph_h :: int
  displayed :: bool

record GridLayout =
  g_widgets :: "WidgetInstance list"
  g_layouts :: "ref Layouts"
  currentBreakpoint :: Breakpoint
  gridContainer :: "Geometry option"
  placeholder :: "Placeholder option"
  draggedWidgetId :: "string option"
  dragOverWidgetId :: "string option"
  resizingWidgetId :: "string option"
  resizeStartPos :: "(real \<times> real) option"
  resizeStartSize :: "(int \<times> int) option"

definition GRID_COLS :: int where "GRID_COLS = 12"
definition ROW_HEIGHT :: int where "ROW_HEIGHT = 40"
definition MARGIN :: int where "MARGIN = 6"

record World =
  objects :: "LayoutItem list"
  state :: WorkspaceState
  grid :: GridLayout

text \<open>
  The listener the component subscribes in \<^verbatim>\<open>onMount\<close>: it compares the JSON renderings of
  the new state's widgets and layouts with its own and takes the new ones over when either
  differs. The JSON rendering of a layout is its items by value.
\<close>

definition onStoreChange :: "LayoutItem list \<Rightarrow> WorkspaceState \<Rightarrow> GridLayout \<Rightarrow> GridLayout" where
  "onStoreChange objs newState g =
     (let widgetsChanged = (widgets newState \<noteq> g_widgets g);
          layoutsChanged = (derefLayouts objs (layouts newState) \<noteq> derefLayouts objs (g_layouts g))
      in if widgetsChanged \<or> layoutsChanged
         then g\<lparr>g_widgets := widgets newState, g_layouts := layouts newState\<rparr>
         else g)"

text \<open>\<^verbatim>\<open>Store.setState\<close>: merge the update into the state, then dispatch the change event.\<close>

definition setState :: "(WorkspaceState \<Rightarrow> WorkspaceState) \<Rightarrow> World \<Rightarrow> World" where
  "setState updater W =
     (let newState = updater (state W)
      in W\<lparr>state := newState, grid := onStoreChange (objects W) newState (grid W)\<rparr>)"

text \<open>The component once mounted on an empty store; \<open>c\<close> is the container's geometry.\<close>

definition mountedWorld :: "Geometry \<Rightarrow> World" where
  "mountedWorld c =
     \<lparr>objects = [], state = initialState,
      grid = \<lparr>g_widgets = [], g_layouts = \<lparr>lg = [], md = [], sm = []\<rparr>,
        currentBreakpoint = LG, gridContainer = Some c, placeholder = None,
        draggedWidgetId = None, dragOverWidgetId = None, resizingWidgetId = None,
        resizeStartPos = None, resizeStartSize = None\<rparr>\<rparr>"

subsection \<open>Store actions\<close>

text \<open>\<open>now\<close> is the value \<^verbatim>\<open>Date.now()\<close> returns in the call.\<close>

definition newWidgetId :: "WidgetType \<Rightarrow> nat \<Rightarrow> string" where
  "newWidgetId type now = typeName type @ ''-'' @ numberToString now"

definition addWidget :: "WidgetType \<Rightarrow> string option \<Rightarrow> WidgetConfig \<Rightarrow> nat \<Rightarrow> World \<Rightarrow> World" where
  "addWidget type tk cfg now W =
     (let currentState = state W;
          newId = newWidgetId type now;
          newWidget = \<lparr>widget_id = newId, widget_type = type, ticker = tk,
                       title = getWidgetTitle type tk, config = cfg\<rparr>;
          position = findAvailablePosition (itemsOf (objects W) (lg (layouts currentState)));
          size = DEFAULT_WIDGET_SIZES type;
          newLayoutItem = \<lparr>item_i = newId, item_x = fst position, item_y = snd position,
                           item_w = size_w size, item_h = size_h size,
                           minW = Some (size_minW size), minH = Some (size_minH size),
                           maxW = None, maxH = None, static = None\<rparr>;
          r = length (objects W)
      in setState (\<lambda>s. s\<lparr>widgets := widgets currentState @ [newWidget],
                          layouts := \<lparr>lg = lg (layouts currentState) @ [r],
                                      md = md (layouts currentState) @ [r],
                                      sm = sm (layouts currentState) @ [r]\<rparr>\<rparr>)
           (W\<lparr>objects := objects W @ [newLayoutItem]\<rparr>))"

definition removeWidget :: "string \<Rightarrow> World \<Rightarrow> World" where
  "removeWidget widgetId W =
     (let currentState = state W;
          keep = (\<lambda>r. item_i (objects W ! r) \<noteq> widgetId)
      in setState (\<lambda>s. s\<lparr>widgets := filter (\<lambda>w. widget_id w \<noteq> widgetId) (widgets currentState),
                          layouts := \<lparr>lg = filter keep (lg (layouts currentState)),
                                      md = filter keep (md (layouts currentState)),
                                      sm = filter keep (sm (layouts currentState))\<rparr>,
                          activeWidgetId := (if activeWidgetId currentState = Some widgetId
                                             then None else activeWidgetId currentState)\<rparr>) W)"

definition updateLayout :: "Breakpoint \<Rightarrow> ref list \<Rightarrow> World \<Rightarrow> World" where
  "updateLayout breakpoint layout W =
     (let currentState = state W
      in setState (\<lambda>s. s\<lparr>layouts := setLayoutOf breakpoint layout (layouts currentState)\<rparr>) W)"

definition setCurrentTicker :: "string option \<Rightarrow> World \<Rightarrow> World" where
  "setCurrentTicker tk W = setState (\<lambda>s. s\<lparr>currentTicker := tk\<rparr>) W"

definition setActiveWidget :: "string option \<Rightarrow> World \<Rightarrow> World" where
  "setActiveWidget widgetId W = setState (\<lambda>s. s\<lparr>activeWidgetId := widgetId\<rparr>) W"

definition clearWorkspace :: "World \<Rightarrow> World" where
  "clearWorkspace W =
     setState (\<lambda>s. s\<lparr>widgets := [], layouts := \<lparr>lg = [], md = [], sm = []\<rparr>,
                       activeWidgetId := None\<rparr>) W"

subsection \<open>Breakpoints and the placeholder\<close>

definition updateBreakpoint :: "real \<Rightarrow> World \<Rightarrow> World" where
  "updateBreakpoint width W =
     (let newBreakpoint = (if width \<ge> 1024 then LG else if width \<ge> 768 then MD else SM)
      in if newBreakpoint \<noteq> currentBreakpoint (grid W)
         then W\<lparr>grid := (grid W)\<lparr>currentBreakpoint := newBreakpoint\<rparr>\<rparr>
         else W)"

definition showPlaceholder :: "int \<Rightarrow> int \<Rightarrow> int \<Rightarrow> int \<Rightarrow> GridLayout \<Rightarrow> GridLayout" where
  "showPlaceholder x y w h g =
     (case gridContainer g of
        None \<Rightarrow> g
      | Some c \<Rightarrow> g\<lparr>placeholder :=
                     Some \<lparr>ph_x = x, ph_y = y, ph_w = w, ph_h = h, displayed = True\<rparr>\<rparr>)"

definition hidePlaceholder :: "GridLayout \<Rightarrow> GridLayout" where
  "hidePlaceholder g =
     (case placeholder g of
        None \<Rightarrow> g
      | Some p \<Rightarrow> g\<lparr>placeholder := Some (p\<lparr>displayed := False\<rparr>)\<rparr>)"

subsection \<open>Pointer position to grid position\<close>

text \<open>
  The pixel arithmetic of \<^verbatim>\<open>calculateGridPosition\<close> and of \<^verbatim>\<open>handleResizeMove\<close> runs in
  double precision on the pointer position and on what \<^verbatim>\<open>getBoundingClientRect\<close> and
  \<^verbatim>\<open>getComputedStyle\<close> report; a quotient of doubles need not be the quotient of the reals,
  and it is infinite or \<^verbatim>\<open>NaN\<close> when the cell pitch \<open>columnWidth + MARGIN\<close> is zero. The
  results of that arithmetic are therefore taken as given. In \<^verbatim>\<open>calculateGridPosition\<close>,
  \<open>column\<close> is the value of \<^verbatim>\<open>Math.floor(relativeX / (columnWidth + this.MARGIN))\<close> and \<open>row\<close>
  the value of \<^verbatim>\<open>Math.floor(relativeY / (this.ROW_HEIGHT + this.MARGIN))\<close>. Here they are
  integers, which they are whenever they are finite; the section on JavaScript numbers
  follows the drop for the other values.
\<close>

definition calculateGridPosition :: "GridLayout \<Rightarrow> int \<Rightarrow> int \<Rightarrow> int \<times> int" where
  "calculateGridPosition g column row =
     (case gridContainer g of
        None \<Rightarrow> (0, 0)
      | Some c \<Rightarrow>
          let x = max 0 (min (GRID_COLS - 1) column);
              y = max 0 row
          in (x, y))"

subsection \<open>Collision test and the two commits\<close>

definition currentLayout :: "World \<Rightarrow> ref list" where
  "currentLayout W = layoutOf (g_layouts (grid W)) (currentBreakpoint (grid W))"

definition findRef :: "LayoutItem list \<Rightarrow> ref list \<Rightarrow> string \<Rightarrow> ref option" where
  "findRef objs rs widgetId = find (\<lambda>r. item_i (objs ! r) = widgetId) rs"

definition hasCollision :: "World \<Rightarrow> LayoutItem \<Rightarrow> string option \<Rightarrow> bool" where
  "hasCollision W item excludeId =
     list_ex (\<lambda>layoutItem.
        if Some (item_i layoutItem) = excludeId then False
        else
          let horizontalOverlap =
                (item_x item < item_x layoutItem + item_w layoutItem \<and>
                 item_x item + item_w item > item_x layoutItem);
              verticalOverlap =
                (item_y item < item_y layoutItem + item_h layoutItem \<and>
                 item_y item + item_h item > item_y layoutItem)
          in horizontalOverlap \<and> verticalOverlap)
       (itemsOf (objects W) (currentLayout W))"

text \<open>
  \<^verbatim>\<open>moveWidgetToPosition\<close> and \<^verbatim>\<open>resizeWidget\<close>: the array is copied, the item found in
  it is the stored object itself, and the assignments to its fields change that object.
\<close>

definition moveWidgetToPosition :: "string \<Rightarrow> int \<Rightarrow> int \<Rightarrow> World \<Rightarrow> World" where
  "moveWidgetToPosition widgetId x y W =
     (let layoutCopy = currentLayout W
      in case findRef (objects W) layoutCopy widgetId of
           None \<Rightarrow> W
         | Some r \<Rightarrow>
             let widgetLayout = objects W ! r;
                 maxX = max 0 (GRID_COLS - item_w widgetLayout);
                 newX = max 0 (min maxX x);
                 newY = max 0 y;
                 tempItem = widgetLayout\<lparr>item_x := newX, item_y := newY\<rparr>
             in if hasCollision W tempItem (Some widgetId) then W
                else updateLayout (currentBreakpoint (grid W)) layoutCopy
                       (W\<lparr>objects := (objects W)[r := widgetLayout\<lparr>item_x := newX, item_y := newY\<rparr>]\<rparr>))"

definition resizeWidget :: "string \<Rightarrow> int \<Rightarrow> int \<Rightarrow> World \<Rightarrow> World" where
  "resizeWidget widgetId w h W =
     (let layoutCopy = currentLayout W
      in case findRef (objects W) layoutCopy widgetId of
           None \<Rightarrow> W
         | Some r \<Rightarrow>
             let widgetLayout = objects W ! r;
                 maxW = max 2 (GRID_COLS - item_x widgetLayout);
                 newW = max 2 (min maxW w);
                 newH = max 2 h;
                 tempItem = widgetLayout\<lparr>item_w := newW, item_h := newH\<rparr>
             in if hasCollision W tempItem (Some widgetId) then W
                else updateLayout (currentBreakpoint (grid W)) layoutCopy
                       (W\<lparr>objects := (objects W)[r := widgetLayout\<lparr>item_w := newW, item_h := newH\<rparr>]\<rparr>))"

subsection \<open>Drag handlers\<close>

text \<open>
  \<open>targetId\<close> is \<^verbatim>\<open>dataset.widgetId\<close> of the dragged container. \<open>column\<close> and \<open>row\<close> are
  the two floor values that \<^verbatim>\<open>calculateGridPosition\<close> computes from the event.
\<close>

definition handleDragStart :: "string \<Rightarrow> World \<Rightarrow> World" where
  "handleDragStart targetId W =
     W\<lparr>grid := (grid W)\<lparr>draggedWidgetId := (if targetId = [] then None else Some targetId)\<rparr>\<rparr>"

definition handleDragEnd :: "World \<Rightarrow> World" where
  "handleDragEnd W = W\<lparr>grid := (grid W)\<lparr>draggedWidgetId := None, dragOverWidgetId := None\<rparr>\<rparr>"

definition handleDragOver :: "int \<Rightarrow> int \<Rightarrow> World \<Rightarrow> World" where
  "handleDragOver column row W =
     (case draggedWidgetId (grid W) of
        None \<Rightarrow> W
      | Some widgetId \<Rightarrow>
          if widgetId = [] then W
          else
            let gridPos = calculateGridPosition (grid W) column row
            in case findRef (objects W) (currentLayout W) widgetId of
                 None \<Rightarrow> W
               | Some r \<Rightarrow>
                   let draggedLayout = objects W ! r
                   in W\<lparr>grid := showPlaceholder (fst gridPos) (snd gridPos)
                                   (item_w draggedLayout) (item_h draggedLayout) (grid W)\<rparr>)"

definition handleDrop :: "int \<Rightarrow> int \<Rightarrow> World \<Rightarrow> World" where
  "handleDrop column row W =
     (let W1 = W\<lparr>grid := hidePlaceholder (grid W)\<rparr>
      in case draggedWidgetId (grid W1) of
           None \<Rightarrow> W1
         | Some widgetId \<Rightarrow>
             if widgetId = [] then W1
             else
               let gridPos = calculateGridPosition (grid W1) column row
               in moveWidgetToPosition widgetId (fst gridPos) (snd gridPos) W1)"

subsection \<open>Resize handlers\<close>

text \<open>
  A string field used as a condition is truthy when it is present and not empty. Reading a
  field of \<^verbatim>\<open>resizeStartPos\<close> or \<^verbatim>\<open>resizeStartSize\<close> while it is still undefined throws,
  which ends the handler before it has changed anything. In \<^verbatim>\<open>handleResizeMove\<close>,
  \<open>deltaW\<close> is the value of \<^verbatim>\<open>Math.round(deltaX / (columnWidth + this.MARGIN))\<close> and \<open>deltaH\<close>
  the value of \<^verbatim>\<open>Math.round(deltaY / (this.ROW_HEIGHT + this.MARGIN))\<close>, computed in double
  precision from the event, \<^verbatim>\<open>resizeStartPos\<close> and the container, and taken as given:
  integers, which they are whenever they are finite.
\<close>

definition handleResizeStart :: "real \<Rightarrow> real \<Rightarrow> string \<Rightarrow> World \<Rightarrow> World" where
  "handleResizeStart clientX clientY widgetId W =
     (let g1 = (grid W)\<lparr>resizingWidgetId := Some widgetId, resizeStartPos := Some (clientX, clientY)\<rparr>
      in case findRef (objects W) (currentLayout W) widgetId of
           None \<Rightarrow> W\<lparr>grid := g1\<rparr>
         | Some r \<Rightarrow>
             let widgetLayout = objects W ! r
             in W\<lparr>grid := g1\<lparr>resizeStartSize := Some (item_w widgetLayout, item_h widgetLayout)\<rparr>\<rparr>)"

definition handleResizeMove :: "int \<Rightarrow> int \<Rightarrow> World \<Rightarrow> World" where
  "handleResizeMove deltaW deltaH W =
     (case (resizingWidgetId (grid W), gridContainer (grid W),
            resizeStartPos (grid W), resizeStartSize (grid W)) of
        (Some widgetId, Some c, Some (startX, startY), Some (startW, startH)) \<Rightarrow>
          if widgetId = [] then W else
          let newW = max 2 (min GRID_COLS (startW + deltaW));
              newH = max 2 (startH + deltaH)
          in (case findRef (objects W) (currentLayout W) widgetId of
                None \<Rightarrow> W
              | Some r \<Rightarrow>
                  let widgetLayout = objects W ! r
                  in W\<lparr>grid := showPlaceholder (item_x widgetLayout) (item_y widgetLayout)
                                  newW newH (grid W)\<rparr>)
      | _ \<Rightarrow> W)"

text \<open>
  \<^verbatim>\<open>handleResizeEnd\<close> hides the placeholder first and reads the final size from it only
  if it is still displayed.
\<close>

definition handleResizeEnd :: "World \<Rightarrow> World" where
  "handleResizeEnd W =
     (case resizingWidgetId (grid W) of
        None \<Rightarrow> W
      | Some widgetId \<Rightarrow>
          if widgetId = [] then W
          else
            let W1 = W\<lparr>grid := hidePlaceholder (grid W)\<rparr>;
                W2 = (case placeholder (grid W1) of
                        None \<Rightarrow> W1
                      | Some p \<Rightarrow>
                          if displayed p
                          then (let w = ph_w p; h = ph_h p
                                in if w > 0 \<and> h > 0 then resizeWidget widgetId w h W1 else W1)
                          else W1)
            in W2\<lparr>grid := (grid W2)\<lparr>resizingWidgetId := None\<rparr>\<rparr>)"

section \<open>Event sequences\<close>

text \<open>
  The calls that reach the store and the component from outside, one constructor per entry
  point, and the state after a sequence of them: the functions of the store that the
  application calls on layouts, ticker and selection, and the event handlers of the
  component. Of the other exports of the store, \<^verbatim>\<open>updateWidget\<close> rewrites fields of widget
  instances only, and \<^verbatim>\<open>updateLayout\<close> is called by the component only.
  \<^verbatim>\<open>moveWidgetToPosition\<close> and \<^verbatim>\<open>resizeWidget\<close> are private methods of the component,
  reached through \<^verbatim>\<open>handleDrop\<close> and \<^verbatim>\<open>handleResizeEnd\<close>.
\<close>

datatype Action =
    AddWidget WidgetType "string option" WidgetConfig nat
  | RemoveWidget string
  | ClearWorkspace
  | SetCurrentTicker "string option"
  | SetActiveWidget "string option"
  | WindowResize real
  | DragStart string
  | DragOver int int
  | Drop int int
  | DragEnd
  | ResizeStart real real string
  | ResizeMove int int
  | ResizeEnd

fun step :: "Action \<Rightarrow> World \<Rightarrow> World" where
  "step (AddWidget type tk cfg now) W = addWidget type tk cfg now W"
| "step (RemoveWidget widgetId) W = removeWidget widgetId W"
| "step ClearWorkspace W = clearWorkspace W"
| "step (SetCurrentTicker tk) W = setCurrentTicker tk W"
| "step (SetActiveWidget widgetId) W = setActiveWidget widgetId W"
| "step (WindowResize width) W = updateBreakpoint width W"
| "step (DragStart targetId) W = handleDragStart targetId W"
| "step (DragOver column row) W = handleDragOver column row W"
| "step (Drop column row) W = handleDrop column row W"
| "step DragEnd W = handleDragEnd W"
| "step (ResizeStart clientX clientY widgetId) W = handleResizeStart clientX clientY widgetId W"
| "step (ResizeMove deltaW deltaH) W = handleResizeMove deltaW deltaH W"
| "step ResizeEnd W = handleResizeEnd W"

fun run :: "Action list \<Rightarrow> World \<Rightarrow> World" where
  "run [] W = W"
| "run (a # as) W = run as (step a W)"

definition layoutItems :: "World \<Rightarrow> Breakpoint \<Rightarrow> LayoutItem list" where
  "layoutItems W bp = itemsOf (objects W) (layoutOf (layouts (state W)) bp)"

text \<open>An object literal with the required fields only, \<^verbatim>\<open>{ i, x, y, w, h }\<close>.\<close>

definition plainItem :: "string \<Rightarrow> int \<Rightarrow> int \<Rightarrow> int \<Rightarrow> int \<Rightarrow> LayoutItem" where
  "plainItem i x y w h = \<lparr>item_i = i, item_x = x, item_y = y, item_w = w, item_h = h,
     minW = None, minH = None, maxW = None, maxH = None, static = None\<rparr>"

section \<open>The React workspace store (\<^verbatim>\<open>useWorkspaceStore\<close>)\<close>

text \<open>
  The store built with \<^verbatim>\<open>create\<close>: its state and the module variable \<^verbatim>\<open>widgetCounter\<close>.
  None of its actions assigns to a field of a stored item, so its layouts hold the items
  by value.
\<close>

record ReactStore =
  widgetCounter :: nat
  r_widgets :: "WidgetInstance list"
  r_layouts :: "LayoutItem Layouts"
  activeTicker :: "string option"
  commandPaletteOpen :: bool

definition generateWidgetId :: "WidgetType \<Rightarrow> nat \<Rightarrow> nat \<Rightarrow> string" where
  "generateWidgetId type counter now =
     typeName type @ ''-'' @ numberToString counter @ ''-'' @ numberToString now"

fun typeLabels :: "WidgetType \<Rightarrow> string" where
  "typeLabels Orderbook = ''Order Book''"
| "typeLabels Chart = ''Chart''"
| "typeLabels TradeHistory = ''Trade History''"
| "typeLabels MarketSelector = ''Markets''"
| "typeLabels Quote = ''Quote''"
| "typeLabels Watchlist = ''Watchlist''"

definition generateWidgetTitle :: "WidgetType \<Rightarrow> string option \<Rightarrow> string" where
  "generateWidgetTitle type tk =
     (case tk of
        None \<Rightarrow> typeLabels type
      | Some t \<Rightarrow> if t = [] then typeLabels type else typeLabels type @ '': '' @ t)"

definition useWorkspaceStore_addWidget ::
  "WidgetType \<Rightarrow> string option \<Rightarrow> WidgetConfig \<Rightarrow> nat \<Rightarrow> ReactStore \<Rightarrow> string \<times> ReactStore" where
  "useWorkspaceStore_addWidget type tk cfg now S =
     (let counter = widgetCounter S + 1;
          wid = generateWidgetId type counter now;
          size = DEFAULT_WIDGET_SIZES type;
          widget = \<lparr>widget_id = wid, widget_type = type, ticker = tk,
                    title = generateWidgetTitle type tk, config = cfg\<rparr>;
          position = findNextPosition (lg (r_layouts S)) (size_w size);
          layoutItem = \<lparr>item_i = wid, item_x = fst position, item_y = snd position,
                        item_w = size_w size, item_h = size_h size,
                        minW = Some (size_minW size), minH = Some (size_minH size),
                        maxW = None, maxH = None, static = None\<rparr>
      in (wid,
          S\<lparr>widgetCounter := counter,
            r_widgets := r_widgets S @ [widget],
            r_layouts :=
              \<lparr>lg = lg (r_layouts S) @ [layoutItem],
               md = md (r_layouts S) @ [layoutItem\<lparr>item_w := min (size_w size) 6\<rparr>],
               sm = sm (r_layouts S) @ [layoutItem\<lparr>item_w := 6, item_x := 0\<rparr>]\<rparr>\<rparr>))"

definition useWorkspaceStore_removeWidget :: "string \<Rightarrow> ReactStore \<Rightarrow> ReactStore" where
  "useWorkspaceStore_removeWidget wid S =
     S\<lparr>r_widgets := filter (\<lambda>w. widget_id w \<noteq> wid) (r_widgets S),
       r_layouts :=
         \<lparr>lg = filter (\<lambda>l. item_i l \<noteq> wid) (lg (r_layouts S)),
          md = filter (\<lambda>l. item_i l \<noteq> wid) (md (r_layouts S)),
          sm = filter (\<lambda>l. item_i l \<noteq> wid) (sm (r_layouts S))\<rparr>\<rparr>"

section \<open>The drop path on JavaScript numbers\<close>

text \<open>
  Pointer coordinates have the TypeScript type \<^verbatim>\<open>number\<close>, which besides the finite values
  holds \<^verbatim>\<open>NaN\<close>, \<^verbatim>\<open>Infinity\<close> and \<^verbatim>\<open>-Infinity\<close>. To follow such a value through a drop,
  \<^verbatim>\<open>calculateGridPosition\<close>, \<^verbatim>\<open>hasCollision\<close> and \<^verbatim>\<open>moveWidgetToPosition\<close> are traced
  once more on numbers with these three values added, from the pointer coordinates on.
  Finite values are reals (rounding and the sign of zero are left out); the operations
  follow ECMAScript: \<^verbatim>\<open>NaN\<close> is contagious in arithmetic, \<^verbatim>\<open>Math.floor\<close>, \<^verbatim>\<open>Math.min\<close> and
  \<^verbatim>\<open>Math.max\<close>, every comparison with \<^verbatim>\<open>NaN\<close> is false, and a division by zero gives an
  infinity or, for \<open>0 / 0\<close>, \<^verbatim>\<open>NaN\<close>.
\<close>

datatype jsnumber = Finite real | NaN | Infinity | NegInfinity

fun numSub :: "jsnumber \<Rightarrow> jsnumber \<Rightarrow> jsnumber" where
  "numSub NaN b = NaN"
| "numSub a NaN = NaN"
| "numSub (Finite a) (Finite b) = Finite (a - b)"
| "numSub (Finite a) Infinity = NegInfinity"
| "numSub (Finite a) NegInfinity = Infinity"
| "numSub Infinity Infinity = NaN"
| "numSub Infinity b = Infinity"
| "numSub NegInfinity NegInfinity = NaN"
| "numSub NegInfinity b = NegInfinity"

fun numAdd :: "jsnumber \<Rightarrow> jsnumber \<Rightarrow> jsnumber" where
  "numAdd NaN b = NaN"
| "numAdd a NaN = NaN"
| "numAdd (Finite a) (Finite b) = Finite (a + b)"
| "numAdd (Finite a) b = b"
| "numAdd Infinity NegInfinity = NaN"
| "numAdd Infinity b = Infinity"
| "numAdd NegInfinity Infinity = NaN"
| "numAdd NegInfinity b = NegInfinity"

fun numDiv :: "jsnumber \<Rightarrow> jsnumber \<Rightarrow> jsnumber" where
  "numDiv NaN b = NaN"
| "numDiv a NaN = NaN"
| "numDiv (Finite a) (Finite b) =
     (if b \<noteq> 0 then Finite (a / b)
      else if a = 0 then NaN else if a > 0 then Infinity else NegInfinity)"
| "numDiv (Finite a) b = Finite 0"
| "numDiv Infinity (Finite b) = (if b \<ge> 0 then Infinity else NegInfinity)"
| "numDiv NegInfinity (Finite b) = (if b \<ge> 0 then NegInfinity else Infinity)"
| "numDiv a b = NaN"

fun mathFloor :: "jsnumber \<Rightarrow> jsnumber" where
  "mathFloor (Finite a) = Finite (real_of_int \<lfloor>a\<rfloor>)"
| "mathFloor a = a"

fun numLess :: "jsnumber \<Rightarrow> jsnumber \<Rightarrow> bool" where
  "numLess NaN b = False"
| "numLess a NaN = False"
| "numLess (Finite a) (Finite b) = (a < b)"
| "numLess a Infinity = (a \<noteq> Infinity)"
| "numLess NegInfinity b = (b \<noteq> NegInfinity)"
| "numLess a b = False"

definition numGreater :: "jsnumber \<Rightarrow> jsnumber \<Rightarrow> bool" where
  "numGreater a b = numLess b a"

fun mathMin :: "jsnumber \<Rightarrow> jsnumber \<Rightarrow> jsnumber" where
  "mathMin NaN b = NaN"
| "mathMin a NaN = NaN"
| "mathMin a b = (if numLess b a then b else a)"

fun mathMax :: "jsnumber \<Rightarrow> jsnumber \<Rightarrow> jsnumber" where
  "mathMax NaN b = NaN"
| "mathMax a NaN = NaN"
| "mathMax a b = (if numLess a b then b else a)"

definition ofInt :: "int \<Rightarrow> jsnumber" where
  "ofInt k = Finite (real_of_int k)"

definition calculateGridPositionN :: "GridLayout \<Rightarrow> jsnumber \<Rightarrow> jsnumber \<Rightarrow> jsnumber \<times> jsnumber" where
  "calculateGridPositionN g clientX clientY =
     (case gridContainer g of
        None \<Rightarrow> (ofInt 0, ofInt 0)
      | Some c \<Rightarrow>
          let relativeX = numSub (numSub clientX (Finite (rect_left c))) (Finite (paddingLeft c));
              relativeY = numSub (numSub clientY (Finite (rect_top c))) (Finite (paddingTop c));
              availableWidth = rect_width c - paddingLeft c - paddingRight c;
              totalMarginWidth = real_of_int (MARGIN * (GRID_COLS - 1));
              columnWidth = (availableWidth - totalMarginWidth) / real_of_int GRID_COLS;
              x = mathMax (ofInt 0) (mathMin (ofInt (GRID_COLS - 1))
                    (mathFloor (numDiv relativeX (Finite (columnWidth + real_of_int MARGIN)))));
              y = mathMax (ofInt 0)
                    (mathFloor (numDiv relativeY (Finite (real_of_int (ROW_HEIGHT + MARGIN)))))
          in (x, y))"

text \<open>
  The collision test for a temporary item at \<open>(tx, ty)\<close> of width \<open>w\<close> and height \<open>h\<close>, and
  the assignment a move performs: \<open>Some (r, newX, newY)\<close> when the method reaches
  \<^verbatim>\<open>widgetLayout.x = newX; widgetLayout.y = newY\<close> for the object \<open>r\<close>, \<open>None\<close> when it
  returns before.
\<close>

definition hasCollisionN ::
  "World \<Rightarrow> jsnumber \<Rightarrow> jsnumber \<Rightarrow> int \<Rightarrow> int \<Rightarrow> string option \<Rightarrow> bool" where
  "hasCollisionN W tx ty w h excludeId =
     list_ex (\<lambda>layoutItem.
        if Some (item_i layoutItem) = excludeId then False
        else
          let horizontalOverlap =
                (numLess tx (ofInt (item_x layoutItem + item_w layoutItem)) \<and>
                 numGreater (numAdd tx (ofInt w)) (ofInt (item_x layoutItem)));
              verticalOverlap =
                (numLess ty (ofInt (item_y layoutItem + item_h layoutItem)) \<and>
                 numGreater (numAdd ty (ofInt h)) (ofInt (item_y layoutItem)))
          in horizontalOverlap \<and> verticalOverlap)
       (itemsOf (objects W) (currentLayout W))"

definition moveWidgetToPositionN ::
  "string \<Rightarrow> jsnumber \<Rightarrow> jsnumber \<Rightarrow> World \<Rightarrow> (ref \<times> jsnumber \<times> jsnumber) option" where
  "moveWidgetToPositionN widgetId x y W =
     (let layoutCopy = currentLayout W
      in case findRef (objects W) layoutCopy widgetId of
           None \<Rightarrow> None
         | Some r \<Rightarrow>
             let widgetLayout = objects W ! r;
                 maxX = max 0 (GRID_COLS - item_w widgetLayout);
                 newX = mathMax (ofInt 0) (mathMin (ofInt maxX) x);
                 newY = mathMax (ofInt 0) y
             in if hasCollisionN W newX newY (item_w widgetLayout) (item_h widgetLayout)
                     (Some widgetId)
                then None
                else Some (r, newX, newY))"

definition handleDropN ::
  "jsnumber \<Rightarrow> jsnumber \<Rightarrow> World \<Rightarrow> (ref \<times> jsnumber \<times> jsnumber) option" where
  "handleDropN clientX clientY W =
     (case draggedWidgetId (grid W) of
        None \<Rightarrow> None
      | Some widgetId \<Rightarrow>
          if widgetId = [] then None
          else
            let gridPos = calculateGridPositionN (grid W) clientX clientY
            in moveWidgetToPositionN widgetId (fst gridPos) (snd gridPos) W)"

section \<open>Invariants and scenario data\<close>

text \<open>
  The layout invariant of the vanilla store and grid: the three breakpoints hold the same
  references, the component's copy of the layouts agrees with the store's, every reference
  points into the object store, and no two items of different identifiers overlap.
\<close>

definition noOverlapById :: "LayoutItem list \<Rightarrow> bool" where
  "noOverlapById xs \<longleftrightarrow>
     list_all (\<lambda>a. list_all (\<lambda>b. item_i a = item_i b \<or> \<not> overlap a b) xs) xs"

definition layoutInv :: "World \<Rightarrow> bool" where
  "layoutInv W \<longleftrightarrow>
     md (layouts (state W)) = lg (layouts (state W)) \<and>
     sm (layouts (state W)) = lg (layouts (state W)) \<and>
     g_layouts (grid W) = layouts (state W) \<and>
     list_all (\<lambda>r. r < length (objects W)) (lg (layouts (state W))) \<and>
     noOverlapById (itemsOf (objects W) (lg (layouts (state W))))"




definition validRefs :: "LayoutItem list \<Rightarrow> ref Layouts \<Rightarrow> bool" where
  "validRefs objs ls \<longleftrightarrow>
     list_all (\<lambda>r. r < length objs) (lg ls) \<and>
     list_all (\<lambda>r. r < length objs) (md ls) \<and>
     list_all (\<lambda>r. r < length objs) (sm ls)"


text \<open>
  The default \<^verbatim>\<open>config = {}\<close> of \<^verbatim>\<open>addWidget\<close>; a container 1218 pixels wide with
  paddings of 12, in which one grid cell with its margin is 100 pixels wide; and a
  container whose rectangle is reported 18 pixels wide with the same paddings, in which
  \<open>columnWidth\<close> is \<open>- 6\<close> and the cell pitch \<open>columnWidth + MARGIN\<close> is zero.
\<close>

definition emptyConfig :: WidgetConfig where
  "emptyConfig = \<lparr>depth = None, timeframe = None, chartType = None, tickers = None\<rparr>"

definition container :: Geometry where
  "container = \<lparr>rect_left = 0, rect_top = 0, rect_width = 1218,
     paddingLeft = 12, paddingTop = 12, paddingRight = 12\<rparr>"


text \<open>
  A workspace with an order book at \<open>(0, 0)\<close> and a chart below it at \<open>(0, 5)\<close>, the chart
  being the active widget; a workspace with the order book alone; a workspace with one
  quote widget, added when \<^verbatim>\<open>Date.now()\<close> was 3; a workspace with the order book alone in
  the container of cell pitch zero; and the React store before any widget is added.
\<close>

definition twoWidgets :: World where
  "twoWidgets =
     run [AddWidget Orderbook None emptyConfig 1, AddWidget Chart None emptyConfig 2,
          SetActiveWidget (Some ''chart-2'')] (mountedWorld container)"

definition oneWidget :: World where
  "oneWidget = run [AddWidget Orderbook None emptyConfig 1] (mountedWorld container)"

definition oneQuote :: World where
  "oneQuote = run [AddWidget Quote None emptyConfig 3] (mountedWorld container)"


definition reactInitial :: ReactStore where
  "reactInitial = \<lparr>widgetCounter = 0, r_widgets = [],
     r_layouts = \<lparr>lg = [], md = [], sm = []\<rparr>,
     activeTicker = None, commandPaletteOpen = False\<rparr>"

section \<open>Properties of the placement functions\<close>

lemma overlap_sym: "overlap a b \<longleftrightarrow> overlap b a"
  by (auto simp: overlap_def)

lemma noOverlap_snoc:
  "noOverlap (xs @ [n]) \<longleftrightarrow> noOverlap xs \<and> list_all (\<lambda>b. \<not> overlap n b) xs"
proof (induction xs)
  case Nil
  then show ?case by simp
next
  case (Cons x xs)
  have "overlap x n = overlap n x" by (rule overlap_sym)
  with Cons show ?case by auto
qed

lemma noOverlap_filter: "noOverlap xs \<Longrightarrow> noOverlap (filter P xs)"
  by (induction xs) (auto simp: list_all_iff)

lemma scanColumns_fits:
  "scanColumns rs nw x = Some x' \<Longrightarrow> fits rs nw x'"
  by (induction rs nw x rule: scanColumns.induct)
     (subst (asm) scanColumns.simps, auto split: if_splits)

lemma scanRows_fits:
  "scanRows ls nw maxY y = Some (x', y') \<Longrightarrow> fits (occupiedRangesOf ls y') nw x'"
  by (induction ls nw maxY y rule: scanRows.induct)
     (subst (asm) scanRows.simps, auto split: if_splits option.splits dest: scanColumns_fits)

lemma bottomOf_ge: "b \<in> set layout \<Longrightarrow> item_y b + item_h b \<le> bottomOf layout"
  by (simp add: bottomOf_def)

lemma below_no_overlap:
  "bottomOf layout \<le> item_y n \<Longrightarrow> list_all (\<lambda>b. \<not> overlap n b) layout"
  using bottomOf_ge by (fastforce simp: list_all_iff overlap_def)

lemma findAvailablePosition_free:
  assumes "findAvailablePosition layout = (item_x n, item_y n)"
  shows "list_all (\<lambda>b. \<not> overlap n b) layout"
proof (cases "layout = []")
  case True
  then show ?thesis by simp
next
  case False
  with assms have "item_y n = bottomOf layout" by (simp add: findAvailablePosition_def)
  then show ?thesis by (simp add: below_no_overlap)
qed

lemma fits_row_no_overlap:
  assumes "fits (occupiedRangesOf layout (item_y n)) (item_w n) (item_x n)" "item_h n = 1"
  shows "list_all (\<lambda>b. \<not> overlap n b) layout"
  using assms
  by (auto simp: fits_def occupiedRangesOf_def list_all_iff list_ex_iff overlap_def)

lemma findNextPosition_row_free:
  assumes "findNextPosition layout (item_w n) = (item_x n, item_y n)" "item_h n = 1"
  shows "list_all (\<lambda>b. \<not> overlap n b) layout"
proof (cases "layout = []")
  case True
  then show ?thesis by simp
next
  case False
  show ?thesis
  proof (cases "scanRows layout (item_w n) (bottomOf layout) 0")
    case None
    with assms False have "item_y n = bottomOf layout" by (simp add: findNextPosition_def)
    then show ?thesis by (simp add: below_no_overlap)
  next
    case (Some p)
    with assms False have "p = (item_x n, item_y n)" by (simp add: findNextPosition_def)
    with Some have "fits (occupiedRangesOf layout (item_y n)) (item_w n) (item_x n)"
      by (auto dest: scanRows_fits)
    with assms show ?thesis by (simp add: fits_row_no_overlap)
  qed
qed

lemmas eval_place = findNextPosition_def findAvailablePosition_def bottomOf_def plainItem_def
  scanRows.simps scanColumns.simps occupiedRangesOf_def fits_def overlap_def

text \<open>
  C2 (as stated): for a non-overlapping input set and \<open>1 \<le> newWidth \<le> 12\<close>, the new item of
  width \<open>newWidth\<close> and height \<open>h \<ge> 1\<close> placed at the position that \<^verbatim>\<open>findNextPosition\<close>
  returns overlaps no input item. This fails: with one item at \<open>(0, 1)\<close>, three wide and
  four high, row 0 is free, so \<open>(0, 0)\<close> is returned for width 3, and an item five high
  placed there overlaps it.
\<close>

theorem findNextPosition_overlap_counterexample:
  "noOverlap [plainItem ''B'' 0 1 3 4] \<and> (1::int) \<le> 3 \<and> (3::int) \<le> 12 \<and>
   findNextPosition [plainItem ''B'' 0 1 3 4] 3 = (0, 0) \<and>
   overlap (plainItem ''N'' 0 0 3 5) (plainItem ''B'' 0 1 3 4) \<and>
   \<not> noOverlap ([plainItem ''B'' 0 1 3 4] @ [plainItem ''N'' 0 0 3 5])"
  by (simp add: eval_place)

text \<open>
  C2 (amended): for every input set, an item of any width and height placed at the position
  that \<^verbatim>\<open>findAvailablePosition\<close> returns overlaps no input item; an item of width
  \<open>newWidth\<close> and height 1 placed at the position that \<^verbatim>\<open>findNextPosition\<close> returns for
  \<open>newWidth\<close> overlaps no input item. In both cases appending the item to a non-overlapping
  set gives a non-overlapping set.
\<close>

theorem placement_no_overlap:
  "(findAvailablePosition layout = (item_x n, item_y n) \<longrightarrow>
      list_all (\<lambda>b. \<not> overlap n b) layout \<and> (noOverlap layout \<longrightarrow> noOverlap (layout @ [n]))) \<and>
   (findNextPosition layout (item_w n) = (item_x n, item_y n) \<and> item_h n = 1 \<longrightarrow>
      list_all (\<lambda>b. \<not> overlap n b) layout \<and> (noOverlap layout \<longrightarrow> noOverlap (layout @ [n])))"
  using findAvailablePosition_free[of layout n] findNextPosition_row_free[of layout n]
  by (simp add: noOverlap_snoc)

theorem placement_no_overlap_witness:
  "findAvailablePosition [plainItem ''A'' 0 0 3 5] = (0, 5) \<and>
   noOverlap ([plainItem ''A'' 0 0 3 5] @ [plainItem ''N'' 0 5 3 5]) \<and>
   findNextPosition [plainItem ''A'' 0 0 3 5] 3 = (3, 0) \<and>
   noOverlap ([plainItem ''A'' 0 0 3 5] @ [plainItem ''N'' 3 0 3 1])"
  using placement_no_overlap[of "[plainItem ''A'' 0 0 3 5]" "plainItem ''N'' 0 5 3 5"]
        placement_no_overlap[of "[plainItem ''A'' 0 0 3 5]" "plainItem ''N'' 3 0 3 1"]
  by (simp add: eval_place)

text \<open>
  C7 (as stated): on the one item \<open>A\<close> at \<open>(0, 0)\<close>, three wide and five high, with
  \<open>newWidth = 3\<close>, each of \<^verbatim>\<open>findNextPosition\<close> and \<^verbatim>\<open>findAvailablePosition\<close> returns
  \<open>(3, 0)\<close>. This fails for \<^verbatim>\<open>findAvailablePosition\<close>.
\<close>

theorem scenario_A_counterexample:
  "\<not> (findNextPosition [plainItem ''A'' 0 0 3 5] 3 = (3, 0) \<and>
      findAvailablePosition [plainItem ''A'' 0 0 3 5] = (3, 0))"
  by (simp add: eval_place)

text \<open>
  C7 (amended): on that input \<^verbatim>\<open>findNextPosition\<close> returns \<open>(3, 0)\<close>, and
  \<^verbatim>\<open>findAvailablePosition\<close>, which starts every new widget at the bottom left, returns
  \<open>(0, 5)\<close>.
\<close>

theorem scenario_A_positions:
  "findNextPosition [plainItem ''A'' 0 0 3 5] 3 = (3, 0) \<and>
   findAvailablePosition [plainItem ''A'' 0 0 3 5] = (0, 5)"
  by (simp add: eval_place)

section \<open>The layout invariant of the vanilla store and grid\<close>

lemma noOverlapById_iff:
  "noOverlapById xs \<longleftrightarrow>
     (\<forall>a\<in>set xs. \<forall>b\<in>set xs. item_i a \<noteq> item_i b \<longrightarrow> \<not> overlap a b)"
  by (auto simp: noOverlapById_def list_all_iff)

lemma noOverlapById_snoc:
  assumes "noOverlapById xs" "list_all (\<lambda>b. \<not> overlap n b) xs"
  shows "noOverlapById (xs @ [n])"
proof -
  have "\<not> overlap b n" if "b \<in> set xs" for b
    using assms(2) that overlap_sym[of b n] by (simp add: list_all_iff)
  with assms show ?thesis by (auto simp: noOverlapById_iff list_all_iff)
qed

lemma noOverlapById_filter: "noOverlapById xs \<Longrightarrow> noOverlapById (filter P xs)"
  by (auto simp: noOverlapById_iff)

lemma objects_setState [simp]: "objects (setState u W) = objects W"
  by (simp add: setState_def Let_def)

lemma state_setState [simp]: "state (setState u W) = u (state W)"
  by (simp add: setState_def Let_def)

lemma grid_setState: "grid (setState u W) = onStoreChange (objects W) (u (state W)) (grid W)"
  by (simp add: setState_def Let_def)

lemma g_layouts_onStoreChange:
  assumes "derefLayouts objs (layouts ns) = derefLayouts objs (g_layouts g) \<Longrightarrow> layouts ns = g_layouts g"
  shows "g_layouts (onStoreChange objs ns g) = layouts ns"
  using assms by (auto simp: onStoreChange_def Let_def)

lemma itemsOf_append_objs:
  "list_all (\<lambda>r. r < length objs) rs \<Longrightarrow> itemsOf (objs @ xs) rs = itemsOf objs rs"
  by (simp add: itemsOf_def list_all_iff nth_append)

lemma itemsOf_snoc: "itemsOf objs (rs @ [r]) = itemsOf objs rs @ [objs ! r]"
  by (simp add: itemsOf_def)

lemma itemsOf_filter:
  "itemsOf objs (filter (\<lambda>r. P (objs ! r)) rs) = filter P (itemsOf objs rs)"
  by (simp add: itemsOf_def filter_map comp_def)

lemma length_itemsOf [simp]: "length (itemsOf objs rs) = length rs"
  by (simp add: itemsOf_def)

lemma filter_same_length: "length (filter P xs) = length xs \<Longrightarrow> filter P xs = xs"
  by (metis filter_True length_filter_less linorder_neq_iff)

lemma layoutInv_addWidget:
  assumes inv: "layoutInv W"
  shows "layoutInv (addWidget type tk cfg now W)"
proof -
  define objs where "objs = objects W"
  define L where "L = layouts (state W)"
  define pos where "pos = findAvailablePosition (itemsOf objs (lg L))"
  define n where "n = \<lparr>item_i = newWidgetId type now, item_x = fst pos, item_y = snd pos,
      item_w = size_w (DEFAULT_WIDGET_SIZES type), item_h = size_h (DEFAULT_WIDGET_SIZES type),
      minW = Some (size_minW (DEFAULT_WIDGET_SIZES type)), minH = Some (size_minH (DEFAULT_WIDGET_SIZES type)),
      maxW = None, maxH = None, static = None\<rparr>"
  define W' where "W' = addWidget type tk cfg now W"
  from inv have eqs: "md L = lg L" "sm L = lg L" "g_layouts (grid W) = L"
    and valid: "list_all (\<lambda>r. r < length objs) (lg L)"
    and nov: "noOverlapById (itemsOf objs (lg L))"
    by (simp_all add: layoutInv_def objs_def L_def)
  have o': "objects W' = objs @ [n]"
    by (simp add: W'_def addWidget_def Let_def objs_def n_def pos_def L_def)
  have l': "layouts (state W') = \<lparr>lg = lg L @ [length objs], md = md L @ [length objs], sm = sm L @ [length objs]\<rparr>"
    by (simp add: W'_def addWidget_def Let_def objs_def L_def)
  have items': "itemsOf (objs @ [n]) (lg L @ [length objs]) = itemsOf objs (lg L) @ [n]"
    using valid by (simp add: itemsOf_snoc itemsOf_append_objs)
  have g': "g_layouts (grid W') = layouts (state W')"
  proof -
    have "grid W' = onStoreChange (objects W') (state W') (grid W)"
      by (simp add: W'_def addWidget_def Let_def grid_setState)
    moreover have "g_layouts (onStoreChange (objects W') (state W') (grid W)) = layouts (state W')"
    proof (rule g_layouts_onStoreChange)
      assume "derefLayouts (objects W') (layouts (state W')) = derefLayouts (objects W') (g_layouts (grid W))"
      then have "length (lg (derefLayouts (objects W') (layouts (state W')))) = length (lg (derefLayouts (objects W') (g_layouts (grid W))))"
        by simp
      then show "layouts (state W') = g_layouts (grid W)"
        by (simp add: l' eqs derefLayouts_def)
    qed
    ultimately show ?thesis by simp
  qed
  have free: "list_all (\<lambda>b. \<not> overlap n b) (itemsOf objs (lg L))"
    by (rule findAvailablePosition_free) (simp add: n_def pos_def)
  have nov': "noOverlapById (itemsOf objs (lg L) @ [n])"
    using nov free by (rule noOverlapById_snoc)
  show ?thesis
    unfolding layoutInv_def W'_def[symmetric]
    using eqs valid nov' g'
    by (auto simp add: o' l' items' list_all_iff less_Suc_eq)
qed


lemma setLayoutOf_same [simp]: "setLayoutOf bp (layoutOf L bp) L = L"
  by (cases bp) simp_all

lemma layoutOf_eq:
  "md L = lg L \<Longrightarrow> sm L = lg L \<Longrightarrow> layoutOf L bp = lg L"
  by (cases bp) simp_all

lemma findRef_Some:
  "findRef objs rs wid = Some r \<Longrightarrow> r \<in> set rs \<and> item_i (objs ! r) = wid"
  by (auto simp: findRef_def find_Some_iff)

lemma itemsOf_update:
  "itemsOf (objs[r := t]) rs = map (\<lambda>q. if q = r \<and> r < length objs then t else objs ! q) rs"
  by (cases "r < length objs") (auto simp: itemsOf_def nth_list_update list_update_beyond)

lemma hasCollision_iff:
  "hasCollision W t (Some wid) \<longleftrightarrow>
     (\<exists>b\<in>set (itemsOf (objects W) (currentLayout W)). item_i b \<noteq> wid \<and> overlap t b)"
  by (auto simp: hasCollision_def list_ex_iff overlap_def Let_def)

lemma layoutInv_commit:
  assumes inv: "layoutInv W"
    and found: "findRef (objects W) (currentLayout W) wid = Some r"
    and same_id: "item_i t = wid"
    and free: "\<not> hasCollision W t (Some wid)"
  shows "layoutInv (updateLayout (currentBreakpoint (grid W)) (currentLayout W)
           (W\<lparr>objects := (objects W)[r := t]\<rparr>))"
proof -
  define objs where "objs = objects W"
  define L where "L = layouts (state W)"
  define W' where "W' = updateLayout (currentBreakpoint (grid W)) (currentLayout W)
           (W\<lparr>objects := (objects W)[r := t]\<rparr>)"
  from inv have eqs: "md L = lg L" "sm L = lg L" "g_layouts (grid W) = L"
    and valid: "list_all (\<lambda>r. r < length objs) (lg L)"
    and nov: "noOverlapById (itemsOf objs (lg L))"
    by (simp_all add: layoutInv_def objs_def L_def)
  have cur: "currentLayout W = lg L"
    by (simp add: currentLayout_def eqs layoutOf_eq)
  from found have r: "r \<in> set (lg L)" "item_i (objs ! r) = wid"
    by (auto dest: findRef_Some simp: cur objs_def)
  with valid have rlt: "r < length objs" by (simp add: list_all_iff)
  have o': "objects W' = objs[r := t]"
    by (simp add: W'_def updateLayout_def Let_def objs_def)
  have l': "layouts (state W') = L"
    by (simp add: W'_def updateLayout_def Let_def L_def[symmetric] currentLayout_def eqs)
  have g': "g_layouts (grid W') = L"
  proof -
    have "grid W' = onStoreChange (objects W') (state W') (grid W)"
      by (simp add: W'_def updateLayout_def Let_def grid_setState)
    moreover have "g_layouts (onStoreChange (objects W') (state W') (grid W)) = layouts (state W')"
      by (rule g_layouts_onStoreChange) (simp add: l' eqs)
    ultimately show ?thesis by (simp add: l')
  qed
  let ?f = "\<lambda>q. if q = r then t else objs ! q"
  have items': "itemsOf (objs[r := t]) (lg L) = map ?f (lg L)"
    using rlt by (simp add: itemsOf_update)
  have old: "\<not> overlap (objs ! p) (objs ! q)"
    if "p \<in> set (lg L)" "q \<in> set (lg L)" "item_i (objs ! p) \<noteq> item_i (objs ! q)" for p q
    using nov that by (auto simp: noOverlapById_iff itemsOf_def)
  have new: "\<not> overlap t (objs ! q)" if "q \<in> set (lg L)" "item_i (objs ! q) \<noteq> wid" for q
    using free that by (auto simp: hasCollision_iff cur objs_def[symmetric] itemsOf_def)
  have nov': "noOverlapById (map ?f (lg L))"
    unfolding noOverlapById_iff
  proof (intro ballI impI)
    fix a b assume a: "a \<in> set (map ?f (lg L))" and b: "b \<in> set (map ?f (lg L))"
      and ne: "item_i a \<noteq> item_i b"
    from a obtain p where p: "p \<in> set (lg L)" "a = ?f p" by auto
    from b obtain q where q: "q \<in> set (lg L)" "b = ?f q" by auto
    show "\<not> overlap a b"
    proof (cases "p = r")
      case True
      show ?thesis
      proof (cases "q = r")
        case True
        with \<open>p = r\<close> p q ne show ?thesis by simp
      next
        case False
        with True p q ne r same_id new[of q] show ?thesis by simp
      qed
    next
      case False
      show ?thesis
      proof (cases "q = r")
        case True
        with False p q ne r same_id new[of p] show ?thesis using overlap_sym[of t "objs ! p"] by simp
      next
        case qr: False
        with False p q ne old[of p q] show ?thesis by simp
      qed
    qed
  qed
  show ?thesis
    unfolding layoutInv_def W'_def[symmetric]
    using eqs valid nov' g'
    by (simp add: o' l' items')
qed

lemma layoutInv_grid_update:
  "g_layouts g' = g_layouts (grid W) \<Longrightarrow> layoutInv (W\<lparr>grid := g'\<rparr>) = layoutInv W"
  by (simp add: layoutInv_def)

lemma layoutInv_moveWidgetToPosition:
  "layoutInv W \<Longrightarrow> layoutInv (moveWidgetToPosition wid x y W)"
  by (auto simp: moveWidgetToPosition_def Let_def split: option.splits
      intro!: layoutInv_commit dest: findRef_Some)

lemma layoutInv_resizeWidget:
  "layoutInv W \<Longrightarrow> layoutInv (resizeWidget wid w h W)"
  by (auto simp: resizeWidget_def Let_def split: option.splits
      intro!: layoutInv_commit dest: findRef_Some)


lemma layoutInv_removeWidget:
  assumes inv: "layoutInv W"
  shows "layoutInv (removeWidget wid W)"
proof -
  define objs where "objs = objects W"
  define L where "L = layouts (state W)"
  define W' where "W' = removeWidget wid W"
  define keep where "keep = (\<lambda>r. item_i (objs ! r) \<noteq> wid)"
  from inv have eqs: "md L = lg L" "sm L = lg L" "g_layouts (grid W) = L"
    and valid: "list_all (\<lambda>r. r < length objs) (lg L)"
    and nov: "noOverlapById (itemsOf objs (lg L))"
    by (simp_all add: layoutInv_def objs_def L_def)
  have o': "objects W' = objs"
    by (simp add: W'_def removeWidget_def Let_def objs_def)
  have l': "layouts (state W') = \<lparr>lg = filter keep (lg L), md = filter keep (lg L), sm = filter keep (lg L)\<rparr>"
    by (simp add: W'_def removeWidget_def Let_def objs_def L_def[symmetric] keep_def eqs)
  have g': "g_layouts (grid W') = layouts (state W')"
  proof -
    have "grid W' = onStoreChange (objects W') (state W') (grid W)"
      by (simp add: W'_def removeWidget_def Let_def grid_setState)
    moreover have "g_layouts (onStoreChange (objects W') (state W') (grid W)) = layouts (state W')"
    proof (rule g_layouts_onStoreChange)
      assume "derefLayouts (objects W') (layouts (state W')) = derefLayouts (objects W') (g_layouts (grid W))"
      then have "length (lg (derefLayouts (objects W') (layouts (state W')))) = length (lg (derefLayouts (objects W') (g_layouts (grid W))))"
        by simp
      then have "length (filter keep (lg L)) = length (lg L)"
        by (simp add: l' eqs derefLayouts_def)
      then have "filter keep (lg L) = lg L" by (rule filter_same_length)
      then show "layouts (state W') = g_layouts (grid W)"
        using eqs by (simp add: l')
    qed
    ultimately show ?thesis by simp
  qed
  have items': "itemsOf objs (filter keep (lg L)) = filter (\<lambda>l. item_i l \<noteq> wid) (itemsOf objs (lg L))"
    unfolding keep_def by (rule itemsOf_filter)
  show ?thesis
    unfolding layoutInv_def W'_def[symmetric]
    using valid nov g'
    by (simp add: o' l' items' noOverlapById_filter list_all_iff)
qed

lemma layoutInv_clearWorkspace: "layoutInv W \<Longrightarrow> layoutInv (clearWorkspace W)"
proof -
  assume inv: "layoutInv W"
  have "g_layouts (onStoreChange (objects W)
          (state W\<lparr>widgets := [], layouts := \<lparr>lg = [], md = [], sm = []\<rparr>, activeWidgetId := None\<rparr>) (grid W))
        = \<lparr>lg = [], md = [], sm = []\<rparr>"
    using inv
    by (auto simp: onStoreChange_def Let_def derefLayouts_def layoutInv_def itemsOf_def)
  then show ?thesis
    by (simp add: clearWorkspace_def layoutInv_def grid_setState itemsOf_def noOverlapById_def)
qed

lemma layoutInv_setCurrentTicker: "layoutInv W \<Longrightarrow> layoutInv (setCurrentTicker tk W)"
  by (simp add: setCurrentTicker_def layoutInv_def grid_setState g_layouts_onStoreChange)

lemma layoutInv_setActiveWidget: "layoutInv W \<Longrightarrow> layoutInv (setActiveWidget wid W)"
  by (simp add: setActiveWidget_def layoutInv_def grid_setState g_layouts_onStoreChange)

lemma g_layouts_showPlaceholder [simp]: "g_layouts (showPlaceholder x y w h g) = g_layouts g"
  by (simp add: showPlaceholder_def split: option.splits)

lemma g_layouts_hidePlaceholder [simp]: "g_layouts (hidePlaceholder g) = g_layouts g"
  by (simp add: hidePlaceholder_def split: option.splits)

lemma layoutInv_updateBreakpoint: "layoutInv W \<Longrightarrow> layoutInv (updateBreakpoint width W)"
  by (simp add: updateBreakpoint_def Let_def layoutInv_def)

lemma layoutInv_handleDragStart: "layoutInv W \<Longrightarrow> layoutInv (handleDragStart t W)"
  by (simp add: handleDragStart_def layoutInv_def)

lemma layoutInv_handleDragEnd: "layoutInv W \<Longrightarrow> layoutInv (handleDragEnd W)"
  by (simp add: handleDragEnd_def layoutInv_def)

lemma layoutInv_handleDragOver: "layoutInv W \<Longrightarrow> layoutInv (handleDragOver cx cy W)"
  by (simp add: handleDragOver_def Let_def layoutInv_def split: option.splits)

lemma layoutInv_handleDrop: "layoutInv W \<Longrightarrow> layoutInv (handleDrop cx cy W)"
  by (simp add: handleDrop_def Let_def layoutInv_moveWidgetToPosition layoutInv_grid_update
      split: option.splits)

lemma layoutInv_handleResizeStart: "layoutInv W \<Longrightarrow> layoutInv (handleResizeStart cx cy wid W)"
  by (simp add: handleResizeStart_def Let_def layoutInv_def split: option.splits)

lemma layoutInv_handleResizeMove: "layoutInv W \<Longrightarrow> layoutInv (handleResizeMove cx cy W)"
  by (simp add: handleResizeMove_def Let_def layoutInv_def split: option.splits prod.splits)

lemma hidden_not_displayed: "placeholder (hidePlaceholder g) = Some p \<Longrightarrow> \<not> displayed p"
  by (auto simp: hidePlaceholder_def split: option.splits)

lemma handleResizeEnd_model:
  "objects (handleResizeEnd W) = objects W \<and> state (handleResizeEnd W) = state W \<and>
   g_layouts (grid (handleResizeEnd W)) = g_layouts (grid W)"
  by (auto simp: handleResizeEnd_def Let_def split: option.splits dest: hidden_not_displayed)

lemma layoutInv_cong:
  "objects W' = objects W \<Longrightarrow> state W' = state W \<Longrightarrow> g_layouts (grid W') = g_layouts (grid W)
   \<Longrightarrow> layoutInv W' = layoutInv W"
  by (simp add: layoutInv_def)

lemma layoutInv_handleResizeEnd: "layoutInv W \<Longrightarrow> layoutInv (handleResizeEnd W)"
  using handleResizeEnd_model[of W] layoutInv_cong[of "handleResizeEnd W" W] by simp

lemma layoutInv_step: "layoutInv W \<Longrightarrow> layoutInv (step a W)"
  by (cases a)
     (simp_all add: layoutInv_addWidget layoutInv_removeWidget layoutInv_clearWorkspace
        layoutInv_setCurrentTicker layoutInv_setActiveWidget layoutInv_updateBreakpoint
        layoutInv_handleDragStart layoutInv_handleDragOver layoutInv_handleDrop
        layoutInv_handleDragEnd layoutInv_handleResizeStart layoutInv_handleResizeMove
        layoutInv_handleResizeEnd)

lemma layoutInv_run: "layoutInv W \<Longrightarrow> layoutInv (run as W)"
  by (induction as arbitrary: W) (simp_all add: layoutInv_step)

lemma layoutInv_mountedWorld: "layoutInv (mountedWorld c)"
  by (simp add: layoutInv_def mountedWorld_def initialState_def itemsOf_def noOverlapById_def)

lemma layoutInv_layoutItems:
  "layoutInv W \<Longrightarrow> layoutItems W bp = layoutItems W LG \<and> noOverlapById (layoutItems W bp)"
  by (cases bp) (simp_all add: layoutInv_def layoutItems_def)

lemmas eval_world = mountedWorld_def initialState_def addWidget_def removeWidget_def
  setState_def onStoreChange_def derefLayouts_def itemsOf_def Let_def
  findAvailablePosition_def bottomOf_def newWidgetId_def numberToString.simps digitChar_def
  getWidgetTitle_def layoutItems_def moveWidgetToPosition_def resizeWidget_def updateLayout_def
  currentLayout_def findRef_def hasCollision_def GRID_COLS_def ROW_HEIGHT_def MARGIN_def
  emptyConfig_def container_def overlap_def updateBreakpoint_def
  setCurrentTicker_def setActiveWidget_def clearWorkspace_def
  handleDragStart_def handleDragEnd_def handleDragOver_def handleDrop_def
  handleResizeStart_def handleResizeMove_def handleResizeEnd_def
  showPlaceholder_def hidePlaceholder_def calculateGridPosition_def

text \<open>
  C1: after every committed mutation no two distinct items of a breakpoint overlap. The
  grid keys its items on the identifier: \<^verbatim>\<open>hasCollision\<close> skips every item that has the
  identifier of the moved one. \<^verbatim>\<open>addWidget\<close> of the vanilla store builds the identifier
  from the type and \<^verbatim>\<open>Date.now()\<close> alone, so two widgets of one type added in the same
  millisecond are two items with one identifier; the generator of the React store adds a
  counter. When the widget \<^verbatim>\<open>quote-5\<close> is then dragged and dropped at column 1, row 4,
  the first of the two items is committed at \<open>(1, 4)\<close>, on top of the second at \<open>(0, 4)\<close>:
  two distinct items of every breakpoint overlap.
\<close>

theorem same_millisecond_ids_overlap:
  "map widget_id (widgets (state (run [AddWidget Quote None emptyConfig 5,
      AddWidget Quote None emptyConfig 5, DragStart ''quote-5'', Drop 1 4]
      (mountedWorld container)))) = [''quote-5'', ''quote-5''] \<and>
   map (\<lambda>l. (item_i l, item_x l, item_y l, item_w l, item_h l))
     (layoutItems (run [AddWidget Quote None emptyConfig 5, AddWidget Quote None emptyConfig 5]
        (mountedWorld container)) LG)
     = [(''quote-5'', 0, 0, 3, 4), (''quote-5'', 0, 4, 3, 4)] \<and>
   map (\<lambda>l. (item_i l, item_x l, item_y l, item_w l, item_h l))
     (layoutItems (run [AddWidget Quote None emptyConfig 5, AddWidget Quote None emptyConfig 5,
        DragStart ''quote-5'', Drop 1 4] (mountedWorld container)) LG)
     = [(''quote-5'', 1, 4, 3, 4), (''quote-5'', 0, 4, 3, 4)] \<and>
   overlap
     (layoutItems (run [AddWidget Quote None emptyConfig 5, AddWidget Quote None emptyConfig 5,
        DragStart ''quote-5'', Drop 1 4] (mountedWorld container)) LG ! 0)
     (layoutItems (run [AddWidget Quote None emptyConfig 5, AddWidget Quote None emptyConfig 5,
        DragStart ''quote-5'', Drop 1 4] (mountedWorld container)) LG ! 1) \<and>
   \<not> noOverlap
     (layoutItems (run [AddWidget Quote None emptyConfig 5, AddWidget Quote None emptyConfig 5,
        DragStart ''quote-5'', Drop 1 4] (mountedWorld container)) SM)"
  by (simp add: eval_world)

section \<open>Frame properties and the register/unregister round trip\<close>

lemma objects_showPlaceholder_world [simp]:
  "objects (W\<lparr>grid := g\<rparr>) = objects W" "state (W\<lparr>grid := g\<rparr>) = state W"
  by simp_all

text \<open>
  C8: a pointer-move of a drag (\<^verbatim>\<open>handleDragOver\<close>) and a mouse-move of a resize
  (\<^verbatim>\<open>handleResizeMove\<close>) leave the layout model unchanged, in every state and for every
  grid position and size difference computed from the event: the object store, the state
  of the workspace store and so the items of every breakpoint are what they were. Only the
  placeholder of the component changes.
\<close>

theorem preview_leaves_model_unchanged:
  "objects (handleDragOver column row W) = objects W \<and>
   state (handleDragOver column row W) = state W \<and>
   layoutItems (handleDragOver column row W) bp = layoutItems W bp \<and>
   objects (handleResizeMove deltaW deltaH W) = objects W \<and>
   state (handleResizeMove deltaW deltaH W) = state W \<and>
   layoutItems (handleResizeMove deltaW deltaH W) bp = layoutItems W bp"
  by (simp add: handleDragOver_def handleResizeMove_def layoutItems_def Let_def
      split: option.splits prod.splits)

lemma removeWidget_objects: "objects (removeWidget wid W) = objects W"
  by (simp add: removeWidget_def Let_def)

lemma removeWidget_layoutItems:
  "layoutItems (removeWidget wid W) bp = filter (\<lambda>l. item_i l \<noteq> wid) (layoutItems W bp)"
  using itemsOf_filter[where P="\<lambda>l. item_i l \<noteq> wid" and objs="objects W"]
  by (cases bp) (simp_all add: removeWidget_def Let_def layoutItems_def)

text \<open>
  C10: \<^verbatim>\<open>removeWidget(id)\<close> sets \<^verbatim>\<open>activeWidgetId\<close> to null exactly when it was the removed
  identifier and leaves it otherwise; \<^verbatim>\<open>currentTicker\<close> and the item objects are unchanged;
  the widgets and the layout entries of every breakpoint are the former ones without those
  of the removed identifier, in their order; removing an identifier that is not present
  changes neither the widgets nor the layouts.
\<close>

theorem removeWidget_frame:
  "activeWidgetId (state (removeWidget wid W)) =
     (if activeWidgetId (state W) = Some wid then None else activeWidgetId (state W)) \<and>
   currentTicker (state (removeWidget wid W)) = currentTicker (state W) \<and>
   objects (removeWidget wid W) = objects W \<and>
   widgets (state (removeWidget wid W)) = filter (\<lambda>w. widget_id w \<noteq> wid) (widgets (state W)) \<and>
   (\<forall>bp. layoutItems (removeWidget wid W) bp = filter (\<lambda>l. item_i l \<noteq> wid) (layoutItems W bp)) \<and>
   (wid \<notin> widget_id ` set (widgets (state W)) \<longrightarrow>
      widgets (state (removeWidget wid W)) = widgets (state W)) \<and>
   ((\<forall>bp. wid \<notin> item_i ` set (layoutItems W bp)) \<longrightarrow>
      layouts (state (removeWidget wid W)) = layouts (state W))"
proof -
  have w: "widgets (state (removeWidget wid W)) = filter (\<lambda>w. widget_id w \<noteq> wid) (widgets (state W))"
    by (simp add: removeWidget_def Let_def)
  have absent: "filter (\<lambda>r. item_i (objects W ! r) \<noteq> wid) rs = rs"
    if "wid \<notin> item_i ` set (itemsOf (objects W) rs)" for rs
    using that by (auto simp: itemsOf_def filter_id_conv)
  have l: "layouts (state (removeWidget wid W)) = layouts (state W)"
    if a: "\<forall>bp. wid \<notin> item_i ` set (layoutItems W bp)"
  proof -
    from a[rule_format, of LG] a[rule_format, of MD] a[rule_format, of SM]
    show ?thesis
      by (simp add: removeWidget_def Let_def layoutItems_def absent)
  qed
  have w2: "widgets (state (removeWidget wid W)) = widgets (state W)"
    if "wid \<notin> widget_id ` set (widgets (state W))"
    using that by (auto simp: w filter_id_conv)
  show ?thesis
    using w w2 l
    by (simp add: removeWidget_layoutItems removeWidget_objects)
       (simp add: removeWidget_def Let_def)
qed



lemma twoWidgets_eval:
  "objects twoWidgets =
     [\<lparr>item_i = ''orderbook-1'', item_x = 0, item_y = 0, item_w = 3, item_h = 5,
        minW = Some 2, minH = Some 3, maxW = None, maxH = None, static = None\<rparr>,
      \<lparr>item_i = ''chart-2'', item_x = 0, item_y = 5, item_w = 5, item_h = 4,
        minW = Some 3, minH = Some 3, maxW = None, maxH = None, static = None\<rparr>]"
  "state twoWidgets =
     \<lparr>widgets =
        [\<lparr>widget_id = ''orderbook-1'', widget_type = Orderbook, ticker = None,
           title = ''Orderbook'', config = emptyConfig\<rparr>,
         \<lparr>widget_id = ''chart-2'', widget_type = Chart, ticker = None,
           title = ''Chart'', config = emptyConfig\<rparr>],
      layouts = \<lparr>lg = [0, 1], md = [0, 1], sm = [0, 1]\<rparr>,
      currentTicker = None, activeWidgetId = Some ''chart-2''\<rparr>"
  "g_layouts (grid twoWidgets) = \<lparr>lg = [0, 1], md = [0, 1], sm = [0, 1]\<rparr>"
  "currentBreakpoint (grid twoWidgets) = LG"
  "gridContainer (grid twoWidgets) = Some container"
  "placeholder (grid twoWidgets) = None"
  by (simp_all add: twoWidgets_def eval_world)

lemmas eval_store = removeWidget_def addWidget_def setState_def Let_def layoutItems_def
  itemsOf_def findAvailablePosition_def bottomOf_def newWidgetId_def numberToString.simps
  digitChar_def getWidgetTitle_def

theorem removeWidget_frame_witness:
  "activeWidgetId (state (removeWidget ''chart-2'' twoWidgets)) = None \<and>
   activeWidgetId (state (removeWidget ''orderbook-1'' twoWidgets)) = Some ''chart-2'' \<and>
   map widget_id (widgets (state (removeWidget ''chart-2'' twoWidgets))) = [''orderbook-1''] \<and>
   map item_i (layoutItems (removeWidget ''chart-2'' twoWidgets) MD) = [''orderbook-1''] \<and>
   widgets (state (removeWidget ''quote-9'' twoWidgets)) = widgets (state twoWidgets) \<and>
   layouts (state (removeWidget ''quote-9'' twoWidgets)) = layouts (state twoWidgets)"
  using removeWidget_frame[of "''chart-2''" twoWidgets]
        removeWidget_frame[of "''orderbook-1''" twoWidgets]
        removeWidget_frame[of "''quote-9''" twoWidgets]
  by (simp add: eval_store twoWidgets_eval)

lemma addWidget_objects:
  "objects (addWidget type tk cfg now W) = objects W @ [\<lparr>item_i = newWidgetId type now,
      item_x = fst (findAvailablePosition (itemsOf (objects W) (lg (layouts (state W))))),
      item_y = snd (findAvailablePosition (itemsOf (objects W) (lg (layouts (state W))))),
      item_w = size_w (DEFAULT_WIDGET_SIZES type), item_h = size_h (DEFAULT_WIDGET_SIZES type),
      minW = Some (size_minW (DEFAULT_WIDGET_SIZES type)),
      minH = Some (size_minH (DEFAULT_WIDGET_SIZES type)),
      maxW = None, maxH = None, static = None\<rparr>]"
  by (simp add: addWidget_def Let_def)

lemma addWidget_layouts:
  "layouts (state (addWidget type tk cfg now W)) =
     \<lparr>lg = lg (layouts (state W)) @ [length (objects W)],
      md = md (layouts (state W)) @ [length (objects W)],
      sm = sm (layouts (state W)) @ [length (objects W)]\<rparr>"
  by (simp add: addWidget_def Let_def)

lemma addWidget_widgets:
  "widgets (state (addWidget type tk cfg now W)) =
     widgets (state W) @ [\<lparr>widget_id = newWidgetId type now, widget_type = type, ticker = tk,
        title = getWidgetTitle type tk, config = cfg\<rparr>]"
  by (simp add: addWidget_def Let_def)

lemma filter_old_refs:
  assumes "list_all (\<lambda>r. r < length objs) rs" "wid \<notin> item_i ` set (itemsOf objs rs)"
  shows "filter (\<lambda>r. item_i ((objs @ [n]) ! r) \<noteq> wid) rs = rs"
  using assms by (auto simp: list_all_iff itemsOf_def nth_append filter_id_conv image_iff)

lemma filter_absent: "wid \<notin> f ` set xs \<Longrightarrow> filter (\<lambda>l. f l \<noteq> wid) xs = xs"
  by (auto simp: filter_id_conv image_iff)

lemma layoutItems_cong:
  "objects W' = objects W @ xs \<Longrightarrow> layouts (state W') = layouts (state W) \<Longrightarrow>
   validRefs (objects W) (layouts (state W)) \<Longrightarrow> layoutItems W' bp = layoutItems W bp"
  by (cases bp) (simp_all add: layoutItems_def validRefs_def itemsOf_append_objs)

lemma oneQuote_eval:
  "objects oneQuote =
     [\<lparr>item_i = ''quote-3'', item_x = 0, item_y = 0, item_w = 3, item_h = 4,
        minW = Some 2, minH = Some 3, maxW = None, maxH = None, static = None\<rparr>]"
  "state oneQuote =
     \<lparr>widgets =
        [\<lparr>widget_id = ''quote-3'', widget_type = Quote, ticker = None,
           title = ''Quote'', config = emptyConfig\<rparr>],
      layouts = \<lparr>lg = [0], md = [0], sm = [0]\<rparr>,
      currentTicker = None, activeWidgetId = None\<rparr>"
  by (simp_all add: oneQuote_def eval_world)

text \<open>
  C9: registering a new widget with \<^verbatim>\<open>addWidget\<close> and unregistering it at once with
  \<^verbatim>\<open>removeWidget\<close> restores the widget list and the layout set of each breakpoint.
  \<^verbatim>\<open>removeWidget\<close> removes every widget and every layout entry that has the identifier
  it is given, and \<^verbatim>\<open>addWidget\<close> of the vanilla store builds the identifier from the type
  and \<^verbatim>\<open>Date.now()\<close> alone, so it is not fresh when a widget of that type was added in the
  same millisecond (the generator of the React store adds a counter). On the workspace
  that holds the quote widget \<^verbatim>\<open>quote-3\<close>, a quote widget registered while \<^verbatim>\<open>Date.now()\<close>
  is still 3 is \<^verbatim>\<open>quote-3\<close> too, and unregistering it removes both: one widget and one
  entry per breakpoint before the registration, none after the round trip.
\<close>

theorem register_unregister_same_millisecond:
  "map widget_id (widgets (state oneQuote)) = [''quote-3''] \<and>
   map item_i (layoutItems oneQuote LG) = [''quote-3''] \<and>
   map item_i (layoutItems oneQuote MD) = [''quote-3''] \<and>
   map item_i (layoutItems oneQuote SM) = [''quote-3''] \<and>
   newWidgetId Quote 3 = ''quote-3'' \<and>
   map widget_id (widgets (state (addWidget Quote None emptyConfig 3 oneQuote)))
     = [''quote-3'', ''quote-3''] \<and>
   map item_i (layoutItems (addWidget Quote None emptyConfig 3 oneQuote) LG)
     = [''quote-3'', ''quote-3''] \<and>
   widgets (state (removeWidget ''quote-3'' (addWidget Quote None emptyConfig 3 oneQuote))) = [] \<and>
   layoutItems (removeWidget ''quote-3'' (addWidget Quote None emptyConfig 3 oneQuote)) LG = [] \<and>
   layoutItems (removeWidget ''quote-3'' (addWidget Quote None emptyConfig 3 oneQuote)) MD = [] \<and>
   layoutItems (removeWidget ''quote-3'' (addWidget Quote None emptyConfig 3 oneQuote)) SM = []"
  by (simp add: eval_store oneQuote_eval)

section \<open>Drop and resize gestures\<close>

lemma oneWidget_eval:
  "objects oneWidget =
     [\<lparr>item_i = ''orderbook-1'', item_x = 0, item_y = 0, item_w = 3, item_h = 5,
        minW = Some 2, minH = Some 3, maxW = None, maxH = None, static = None\<rparr>]"
  "layouts (state oneWidget) = \<lparr>lg = [0], md = [0], sm = [0]\<rparr>"
  "g_layouts (grid oneWidget) = \<lparr>lg = [0], md = [0], sm = [0]\<rparr>"
  "currentBreakpoint (grid oneWidget) = LG"
  "gridContainer (grid oneWidget) = Some container"
  "placeholder (grid oneWidget) = None"
  "resizingWidgetId (grid oneWidget) = None"
  by (simp_all add: oneWidget_def eval_world)

lemmas eval_grid = handleDragStart_def handleDrop_def handleDragOver_def handleResizeStart_def
  handleResizeMove_def handleResizeEnd_def showPlaceholder_def hidePlaceholder_def
  calculateGridPosition_def moveWidgetToPosition_def resizeWidget_def
  updateLayout_def currentLayout_def findRef_def hasCollision_def setState_def
  layoutItems_def itemsOf_def Let_def GRID_COLS_def ROW_HEIGHT_def MARGIN_def container_def

text \<open>
  C4 (Scenario D): item \<open>A\<close> has width 3 and the space to its right is free; the resize is
  started on its handle, the pointer is moved two cells to the right (\<open>deltaW = 2\<close>,
  \<open>deltaH = 0\<close>), so the placeholder previews width 5, and the pointer is released. The
  claim expects width 5 to be committed. \<^verbatim>\<open>handleResizeEnd\<close> hides the placeholder before it tests whether the
  placeholder is displayed, so it never calls \<^verbatim>\<open>resizeWidget\<close>: the width stays 3, while
  \<^verbatim>\<open>resizeWidget\<close> called with the previewed size would have committed 5.
\<close>

theorem scenario_D_resize_not_committed:
  "\<not> hasCollision oneWidget (plainItem ''orderbook-1'' 0 0 5 5) (Some ''orderbook-1'') \<and>
   placeholder (grid (run [ResizeStart 300 200 ''orderbook-1'', ResizeMove 2 0] oneWidget))
     = Some \<lparr>ph_x = 0, ph_y = 0, ph_w = 5, ph_h = 5, displayed = True\<rparr> \<and>
   map item_w (layoutItems
     (run [ResizeStart 300 200 ''orderbook-1'', ResizeMove 2 0, ResizeEnd] oneWidget) LG) = [3] \<and>
   map item_w (layoutItems (resizeWidget ''orderbook-1'' 5 5 oneWidget) LG) = [5]"
  by (simp add: eval_grid oneWidget_eval plainItem_def)


lemma hidePlaceholder_fields [simp]:
  "draggedWidgetId (hidePlaceholder g) = draggedWidgetId g"
  "currentBreakpoint (hidePlaceholder g) = currentBreakpoint g"
  "gridContainer (hidePlaceholder g) = gridContainer g"
  by (simp_all add: hidePlaceholder_def split: option.splits)

lemma calculateGridPosition_hidePlaceholder [simp]:
  "calculateGridPosition (hidePlaceholder g) cx cy = calculateGridPosition g cx cy"
  by (simp add: calculateGridPosition_def)

lemma currentLayout_hidden [simp]:
  "currentLayout (W\<lparr>grid := hidePlaceholder (grid W)\<rparr>) = currentLayout W"
  by (simp add: currentLayout_def)

lemma hasCollision_hidden [simp]:
  "hasCollision (W\<lparr>grid := hidePlaceholder (grid W)\<rparr>) t e = hasCollision W t e"
  by (simp add: hasCollision_def)

lemma dragging_eval:
  "objects (handleDragStart wid W) = objects W"
  "state (handleDragStart wid W) = state W"
  "g_layouts (grid (handleDragStart wid W)) = g_layouts (grid W)"
  "currentBreakpoint (grid (handleDragStart wid W)) = currentBreakpoint (grid W)"
  "gridContainer (grid (handleDragStart wid W)) = gridContainer (grid W)"
  "placeholder (grid (handleDragStart wid W)) = placeholder (grid W)"
  "draggedWidgetId (grid (handleDragStart wid W)) = (if wid = [] then None else Some wid)"
  by (simp_all add: handleDragStart_def)

section \<open>Bounds of committed items\<close>































section \<open>Non-finite pointer coordinates\<close>

lemma mathMin_ofInt [simp]: "mathMin (ofInt a) (ofInt b) = ofInt (min a b)"
  by (auto simp: ofInt_def)

lemma mathMax_ofInt [simp]: "mathMax (ofInt a) (ofInt b) = ofInt (max a b)"
  by (auto simp: ofInt_def)

lemma numLess_ofInt [simp]: "numLess (ofInt a) (ofInt b) = (a < b)"
  by (simp add: ofInt_def)

lemma numAdd_ofInt [simp]: "numAdd (ofInt a) (ofInt b) = ofInt (a + b)"
  by (simp add: ofInt_def)

lemma calculateGridPositionN_floor:
  assumes "gridContainer g = Some c"
    and "mathFloor (numDiv (numSub (numSub clientX (Finite (rect_left c))) (Finite (paddingLeft c)))
           (Finite ((rect_width c - paddingLeft c - paddingRight c
                      - real_of_int (MARGIN * (GRID_COLS - 1))) / real_of_int GRID_COLS
                    + real_of_int MARGIN))) = ofInt column"
    and "mathFloor (numDiv (numSub (numSub clientY (Finite (rect_top c))) (Finite (paddingTop c)))
           (Finite (real_of_int (ROW_HEIGHT + MARGIN)))) = ofInt row"
  shows "calculateGridPositionN g clientX clientY =
           (ofInt (fst (calculateGridPosition g column row)),
            ofInt (snd (calculateGridPosition g column row)))"
  using assms
  by (simp add: calculateGridPositionN_def calculateGridPosition_def Let_def)

lemma calculateGridPositionN_NaN:
  "gridContainer g = Some c \<Longrightarrow> calculateGridPositionN g NaN NaN = (NaN, NaN)"
  by (simp add: calculateGridPositionN_def Let_def ofInt_def)

lemma hasCollisionN_finite:
  "hasCollisionN W (ofInt (item_x t)) (ofInt (item_y t)) (item_w t) (item_h t) e = hasCollision W t e"
  by (simp add: hasCollisionN_def hasCollision_def numGreater_def Let_def)

lemma hasCollisionN_NaN: "\<not> hasCollisionN W NaN NaN w h e"
  by (simp add: hasCollisionN_def list_ex_iff Let_def)

lemma moveWidgetToPositionN_finite:
  assumes "findRef (objects W) (currentLayout W) wid = Some r"
    and "candidate = (objects W ! r)
           \<lparr>item_x := max 0 (min (max 0 (GRID_COLS - item_w (objects W ! r))) gx),
            item_y := max 0 gy\<rparr>"
  shows "moveWidgetToPositionN wid (ofInt gx) (ofInt gy) W =
           (if hasCollision W candidate (Some wid) then None
            else Some (r, ofInt (item_x candidate), ofInt (item_y candidate)))"
  using assms hasCollisionN_finite[of W candidate "Some wid"]
  by (simp add: moveWidgetToPositionN_def Let_def)

text \<open>
  C6 (amended): pointer coordinates are not tested for finiteness. In a drag of a widget
  that is in the active layout, with a grid container present: \<^verbatim>\<open>calculateGridPosition\<close>
  maps the coordinates \<^verbatim>\<open>(NaN, NaN)\<close> to the position \<^verbatim>\<open>(NaN, NaN)\<close>, no collision test
  succeeds on it, and the drop assigns \<^verbatim>\<open>NaN\<close> to \<open>x\<close> and \<open>y\<close> of the dragged item; with
  finite coordinates whose grid position is a pair of integers the drop assigns exactly
  the clamped integer candidate of the finite model, or nothing when that candidate
  collides.
\<close>

theorem pointer_coordinates_unchecked:
  assumes "draggedWidgetId (grid W) = Some wid" and "wid \<noteq> []"
    and "findRef (objects W) (currentLayout W) wid = Some r"
    and "gridContainer (grid W) = Some c"
    and "candidate = (objects W ! r)
           \<lparr>item_x := max 0 (min (max 0 (GRID_COLS - item_w (objects W ! r))) gx),
            item_y := max 0 gy\<rparr>"
  shows "calculateGridPositionN (grid W) NaN NaN = (NaN, NaN) \<and>
         handleDropN NaN NaN W = Some (r, NaN, NaN) \<and>
         (calculateGridPositionN (grid W) (Finite clientX) (Finite clientY) = (ofInt gx, ofInt gy) \<longrightarrow>
          handleDropN (Finite clientX) (Finite clientY) W =
            (if hasCollision W candidate (Some wid) then None
             else Some (r, ofInt (item_x candidate), ofInt (item_y candidate))))"
proof (intro conjI impI)
  show "calculateGridPositionN (grid W) NaN NaN = (NaN, NaN)"
    using assms(4) by (rule calculateGridPositionN_NaN)
  then show "handleDropN NaN NaN W = Some (r, NaN, NaN)"
    using assms(1,2,3)
    by (simp add: handleDropN_def moveWidgetToPositionN_def Let_def hasCollisionN_NaN ofInt_def)
next
  assume "calculateGridPositionN (grid W) (Finite clientX) (Finite clientY) = (ofInt gx, ofInt gy)"
  then show "handleDropN (Finite clientX) (Finite clientY) W =
            (if hasCollision W candidate (Some wid) then None
             else Some (r, ofInt (item_x candidate), ofInt (item_y candidate)))"
    using assms(1,2) moveWidgetToPositionN_finite[OF assms(3,5)]
    by (simp add: handleDropN_def Let_def)
qed

text \<open>
  C6 (as stated): a pointer event with non-finite coordinates derives no preview position
  and changes nothing; a drop with such coordinates leaves the item's \<open>(x, y)\<close> as it was.
  This fails: for the coordinates \<^verbatim>\<open>(NaN, NaN)\<close> the position \<^verbatim>\<open>(NaN, NaN)\<close> is derived and
  the drop assigns \<^verbatim>\<open>NaN\<close> to \<open>x\<close> and \<open>y\<close> of the order book; for \<^verbatim>\<open>(150, Infinity)\<close> it
  assigns \<open>x = 1\<close> and \<^verbatim>\<open>y = Infinity\<close>.
\<close>

theorem nan_drop_counterexample:
  "calculateGridPositionN (grid (handleDragStart ''orderbook-1'' oneWidget)) NaN NaN = (NaN, NaN) \<and>
   handleDropN NaN NaN (handleDragStart ''orderbook-1'' oneWidget) = Some (0, NaN, NaN) \<and>
   handleDropN (Finite 150) Infinity (handleDragStart ''orderbook-1'' oneWidget)
     = Some (0, Finite 1, Infinity)"
  by (simp add: handleDropN_def moveWidgetToPositionN_def hasCollisionN_def
      calculateGridPositionN_def currentLayout_def findRef_def itemsOf_def Let_def
      dragging_eval oneWidget_eval container_def GRID_COLS_def ROW_HEIGHT_def MARGIN_def
      ofInt_def numGreater_def)

theorem pointer_coordinates_unchecked_witness:
  "handleDropN NaN NaN (handleDragStart ''orderbook-1'' twoWidgets) = Some (0, NaN, NaN) \<and>
   calculateGridPositionN (grid (handleDragStart ''orderbook-1'' twoWidgets)) (Finite 150) (Finite 300)
     = (Finite 1, Finite 6) \<and>
   handleDropN (Finite 150) (Finite 300) (handleDragStart ''orderbook-1'' twoWidgets) = None \<and>
   calculateGridPositionN (grid (handleDragStart ''orderbook-1'' twoWidgets)) (Finite 550) (Finite 300)
     = (Finite 5, Finite 6) \<and>
   handleDropN (Finite 550) (Finite 300) (handleDragStart ''orderbook-1'' twoWidgets)
     = Some (0, Finite 5, Finite 6)"
proof -
  let ?W = "handleDragStart ''orderbook-1'' twoWidgets"
  have d: "draggedWidgetId (grid ?W) = Some ''orderbook-1''" by (simp add: dragging_eval)
  have n: "''orderbook-1'' \<noteq> []" by simp
  have f: "findRef (objects ?W) (currentLayout ?W) ''orderbook-1'' = Some 0"
    by (simp add: findRef_def currentLayout_def dragging_eval twoWidgets_eval)
  have c: "gridContainer (grid ?W) = Some container"
    by (simp add: dragging_eval twoWidgets_eval)
  have g1: "calculateGridPositionN (grid ?W) (Finite 150) (Finite 300) = (ofInt 1, ofInt 6)"
    by (simp add: calculateGridPositionN_def dragging_eval twoWidgets_eval Let_def
        container_def GRID_COLS_def ROW_HEIGHT_def MARGIN_def ofInt_def)
  have g2: "calculateGridPositionN (grid ?W) (Finite 550) (Finite 300) = (ofInt 5, ofInt 6)"
    by (simp add: calculateGridPositionN_def dragging_eval twoWidgets_eval Let_def
        container_def GRID_COLS_def ROW_HEIGHT_def MARGIN_def ofInt_def)
  have o: "objects ?W ! 0 = \<lparr>item_i = ''orderbook-1'', item_x = 0, item_y = 0, item_w = 3,
      item_h = 5, minW = Some 2, minH = Some 3, maxW = None, maxH = None, static = None\<rparr>"
    by (simp add: dragging_eval twoWidgets_eval)
  have h1: "hasCollision ?W ((objects ?W ! 0)
      \<lparr>item_x := max 0 (min (max 0 (GRID_COLS - item_w (objects ?W ! 0))) 1), item_y := max 0 6\<rparr>)
      (Some ''orderbook-1'')"
    by (simp add: o hasCollision_def currentLayout_def itemsOf_def dragging_eval twoWidgets_eval
        Let_def GRID_COLS_def)
  have h2: "\<not> hasCollision ?W ((objects ?W ! 0)
      \<lparr>item_x := max 0 (min (max 0 (GRID_COLS - item_w (objects ?W ! 0))) 5), item_y := max 0 6\<rparr>)
      (Some ''orderbook-1'')"
    by (simp add: o hasCollision_def currentLayout_def itemsOf_def dragging_eval twoWidgets_eval
        Let_def GRID_COLS_def)
  from pointer_coordinates_unchecked[OF d n f c refl, where gx=1 and gy=6 and clientX=150 and clientY=300] g1 h1
  have 1: "handleDropN NaN NaN ?W = Some (0, NaN, NaN)"
    and 2: "handleDropN (Finite 150) (Finite 300) ?W = None"
    by simp_all
  from pointer_coordinates_unchecked[OF d n f c refl, where gx=5 and gy=6 and clientX=550 and clientY=300] g2 h2
  have 3: "handleDropN (Finite 550) (Finite 300) ?W = Some (0, Finite 5, Finite 6)"
    by (simp add: o GRID_COLS_def ofInt_def)
  from 1 g1 2 g2 3 show ?thesis by (simp add: ofInt_def)
qed

section \<open>Further properties\<close>

text \<open>
  \<^verbatim>\<open>handleResizeEnd\<close> never commits: for every state it leaves the item objects and the
  state of the store as they are.
\<close>

theorem handleResizeEnd_never_commits:
  "objects (handleResizeEnd W) = objects W \<and> state (handleResizeEnd W) = state W \<and>
   layoutItems (handleResizeEnd W) bp = layoutItems W bp"
  using handleResizeEnd_model[of W] by (simp add: layoutItems_def)

text \<open>
  The three breakpoints hold the same item objects: after every sequence of events the
  layout of each breakpoint is the layout of \<^verbatim>\<open>lg\<close>, so a move committed under one
  breakpoint is seen under all.
\<close>

theorem breakpoints_share_items:
  "layoutOf (layouts (state (run as (mountedWorld c)))) bp
     = lg (layouts (state (run as (mountedWorld c))))"
proof -
  have "layoutInv (run as (mountedWorld c))"
    by (rule layoutInv_run[OF layoutInv_mountedWorld])
  then show ?thesis by (simp add: layoutInv_def layoutOf_eq)
qed

text \<open>
  Items of different identifiers never overlap: starting from the empty workspace, after
  every sequence of events, whatever the identifiers \<^verbatim>\<open>addWidget\<close> has built, two items of
  a breakpoint that have different identifiers do not overlap.
\<close>

theorem different_ids_never_overlap:
  "\<forall>a\<in>set (layoutItems (run as (mountedWorld c)) bp).
   \<forall>b\<in>set (layoutItems (run as (mountedWorld c)) bp).
     item_i a \<noteq> item_i b \<longrightarrow> \<not> overlap a b"
proof -
  have "layoutInv (run as (mountedWorld c))"
    by (rule layoutInv_run[OF layoutInv_mountedWorld])
  then have "noOverlapById (layoutItems (run as (mountedWorld c)) bp)"
    by (rule layoutInv_layoutItems[THEN conjunct2])
  then show ?thesis by (simp only: noOverlapById_iff)
qed

theorem different_ids_never_overlap_witness:
  "map (\<lambda>l. (item_i l, item_x l, item_y l, item_w l, item_h l))
     (layoutItems (run [AddWidget Orderbook None emptyConfig 1, AddWidget Chart None emptyConfig 2,
        WindowResize 800, DragStart ''chart-2'', Drop 3 0] (mountedWorld container)) SM)
     = [(''orderbook-1'', 0, 0, 3, 5), (''chart-2'', 3, 0, 5, 4)] \<and>
   \<not> overlap
     (layoutItems (run [AddWidget Orderbook None emptyConfig 1, AddWidget Chart None emptyConfig 2,
        WindowResize 800, DragStart ''chart-2'', Drop 3 0] (mountedWorld container)) SM ! 0)
     (layoutItems (run [AddWidget Orderbook None emptyConfig 1, AddWidget Chart None emptyConfig 2,
        WindowResize 800, DragStart ''chart-2'', Drop 3 0] (mountedWorld container)) SM ! 1)"
proof -
  let ?as = "[AddWidget Orderbook None emptyConfig 1, AddWidget Chart None emptyConfig 2,
        WindowResize 800, DragStart ''chart-2'', Drop 3 0]"
  let ?xs = "layoutItems (run ?as (mountedWorld container)) SM"
  have e: "?xs =
     [\<lparr>item_i = ''orderbook-1'', item_x = 0, item_y = 0, item_w = 3, item_h = 5,
        minW = Some 2, minH = Some 3, maxW = None, maxH = None, static = None\<rparr>,
      \<lparr>item_i = ''chart-2'', item_x = 3, item_y = 0, item_w = 5, item_h = 4,
        minW = Some 3, minH = Some 3, maxW = None, maxH = None, static = None\<rparr>]"
    by (simp add: eval_world)
  have a: "?xs ! 0 \<in> set ?xs" and b: "?xs ! 1 \<in> set ?xs" and i: "item_i (?xs ! 0) \<noteq> item_i (?xs ! 1)"
    unfolding e by simp_all
  from different_ids_never_overlap[of ?as container SM, rule_format, OF a b i]
  have n: "\<not> overlap (?xs ! 0) (?xs ! 1)" .
  have m: "map (\<lambda>l. (item_i l, item_x l, item_y l, item_w l, item_h l)) ?xs
     = [(''orderbook-1'', 0, 0, 3, 5), (''chart-2'', 3, 0, 5, 4)]"
    unfolding e by simp
  from m n show ?thesis by (intro conjI)
qed

text \<open>
  The round trip under a fresh identifier: when no widget and no layout item has the
  identifier that \<^verbatim>\<open>addWidget\<close> builds, \<^verbatim>\<open>addWidget\<close> appends one widget and, to each
  breakpoint, one layout entry of that identifier, and removing the identifier at once
  restores the widget list and the three layouts, as lists and so as sets; in the vanilla
  store (whose arrays refer to existing item objects) and in the React store.
\<close>

theorem register_unregister_roundtrip:
  "(validRefs (objects W) (layouts (state W)) \<and>
    newWidgetId type now \<notin> widget_id ` set (widgets (state W)) \<and>
    (\<forall>bp. newWidgetId type now \<notin> item_i ` set (layoutItems W bp)) \<longrightarrow>
      map widget_id (widgets (state (addWidget type tk cfg now W)))
        = map widget_id (widgets (state W)) @ [newWidgetId type now] \<and>
      (\<forall>bp. map item_i (layoutItems (addWidget type tk cfg now W) bp)
             = map item_i (layoutItems W bp) @ [newWidgetId type now]) \<and>
      widgets (state (removeWidget (newWidgetId type now) (addWidget type tk cfg now W)))
        = widgets (state W) \<and>
      layouts (state (removeWidget (newWidgetId type now) (addWidget type tk cfg now W)))
        = layouts (state W) \<and>
      (\<forall>bp. layoutItems (removeWidget (newWidgetId type now) (addWidget type tk cfg now W)) bp
             = layoutItems W bp)) \<and>
   (fst (useWorkspaceStore_addWidget type tk cfg now S) \<notin> widget_id ` set (r_widgets S) \<and>
    fst (useWorkspaceStore_addWidget type tk cfg now S) \<notin> item_i ` set (lg (r_layouts S)) \<and>
    fst (useWorkspaceStore_addWidget type tk cfg now S) \<notin> item_i ` set (md (r_layouts S)) \<and>
    fst (useWorkspaceStore_addWidget type tk cfg now S) \<notin> item_i ` set (sm (r_layouts S)) \<longrightarrow>
      map widget_id (r_widgets (snd (useWorkspaceStore_addWidget type tk cfg now S)))
        = map widget_id (r_widgets S) @ [fst (useWorkspaceStore_addWidget type tk cfg now S)] \<and>
      (\<forall>bp. map item_i (layoutOf (r_layouts (snd (useWorkspaceStore_addWidget type tk cfg now S))) bp)
             = map item_i (layoutOf (r_layouts S) bp)
               @ [fst (useWorkspaceStore_addWidget type tk cfg now S)]) \<and>
      r_widgets (useWorkspaceStore_removeWidget (fst (useWorkspaceStore_addWidget type tk cfg now S))
                   (snd (useWorkspaceStore_addWidget type tk cfg now S))) = r_widgets S \<and>
      r_layouts (useWorkspaceStore_removeWidget (fst (useWorkspaceStore_addWidget type tk cfg now S))
                   (snd (useWorkspaceStore_addWidget type tk cfg now S))) = r_layouts S)"
proof (intro conjI impI)
  assume a: "validRefs (objects W) (layouts (state W)) \<and>
    newWidgetId type now \<notin> widget_id ` set (widgets (state W)) \<and>
    (\<forall>bp. newWidgetId type now \<notin> item_i ` set (layoutItems W bp))"
  let ?wid = "newWidgetId type now"
  let ?W1 = "addWidget type tk cfg now W"
  let ?W2 = "removeWidget ?wid ?W1"
  from a have v: "validRefs (objects W) (layouts (state W))"
    and fw: "?wid \<notin> widget_id ` set (widgets (state W))"
    and fl: "\<forall>bp. ?wid \<notin> item_i ` set (layoutItems W bp)" by auto
  show "map widget_id (widgets (state ?W1)) = map widget_id (widgets (state W)) @ [?wid]"
    by (simp add: addWidget_widgets)
  have "map item_i (layoutItems ?W1 bp) = map item_i (layoutItems W bp) @ [?wid]" for bp
    using v
    by (cases bp)
       (simp_all add: layoutItems_def addWidget_layouts addWidget_objects validRefs_def
          itemsOf_snoc itemsOf_append_objs)
  then show "\<forall>bp. map item_i (layoutItems ?W1 bp) = map item_i (layoutItems W bp) @ [?wid]" ..
  show w: "widgets (state ?W2) = widgets (state W)"
    using fw by (auto simp: removeWidget_def Let_def addWidget_widgets filter_id_conv image_iff)
  show l: "layouts (state ?W2) = layouts (state W)"
    using v fl[rule_format, of LG] fl[rule_format, of MD] fl[rule_format, of SM]
    by (simp add: removeWidget_def Let_def addWidget_layouts addWidget_objects
        filter_old_refs validRefs_def layoutItems_def)
  have o: "objects ?W2 = objects W @ [objects ?W1 ! length (objects W)]"
    by (simp add: removeWidget_def Let_def addWidget_objects)
  show "\<forall>bp. layoutItems ?W2 bp = layoutItems W bp"
    using layoutItems_cong[OF o l v] by simp
next
  let ?wid = "fst (useWorkspaceStore_addWidget type tk cfg now S)"
  assume a: "?wid \<notin> widget_id ` set (r_widgets S) \<and> ?wid \<notin> item_i ` set (lg (r_layouts S)) \<and>
    ?wid \<notin> item_i ` set (md (r_layouts S)) \<and> ?wid \<notin> item_i ` set (sm (r_layouts S))"
  show "map widget_id (r_widgets (snd (useWorkspaceStore_addWidget type tk cfg now S)))
        = map widget_id (r_widgets S) @ [?wid]"
    by (simp add: useWorkspaceStore_addWidget_def Let_def)
  have "map item_i (layoutOf (r_layouts (snd (useWorkspaceStore_addWidget type tk cfg now S))) bp)
             = map item_i (layoutOf (r_layouts S) bp) @ [?wid]" for bp
    by (cases bp) (simp_all add: useWorkspaceStore_addWidget_def Let_def)
  then show "\<forall>bp. map item_i (layoutOf (r_layouts (snd (useWorkspaceStore_addWidget type tk cfg now S))) bp)
             = map item_i (layoutOf (r_layouts S) bp) @ [?wid]" ..
  from a show "r_widgets (useWorkspaceStore_removeWidget ?wid (snd (useWorkspaceStore_addWidget type tk cfg now S))) = r_widgets S"
    by (simp add: useWorkspaceStore_removeWidget_def useWorkspaceStore_addWidget_def Let_def filter_absent)
  from a show "r_layouts (useWorkspaceStore_removeWidget ?wid (snd (useWorkspaceStore_addWidget type tk cfg now S))) = r_layouts S"
    by (simp add: useWorkspaceStore_removeWidget_def useWorkspaceStore_addWidget_def Let_def filter_absent)
qed

theorem register_unregister_roundtrip_witness:
  "newWidgetId Quote 3 = ''quote-3'' \<and>
   map widget_id (widgets (state (addWidget Quote None emptyConfig 3 twoWidgets)))
     = [''orderbook-1'', ''chart-2'', ''quote-3''] \<and>
   map item_i (layoutItems (addWidget Quote None emptyConfig 3 twoWidgets) MD)
     = [''orderbook-1'', ''chart-2'', ''quote-3''] \<and>
   widgets (state (removeWidget ''quote-3'' (addWidget Quote None emptyConfig 3 twoWidgets)))
     = widgets (state twoWidgets) \<and>
   layouts (state (removeWidget ''quote-3'' (addWidget Quote None emptyConfig 3 twoWidgets)))
     = layouts (state twoWidgets) \<and>
   fst (useWorkspaceStore_addWidget Quote None emptyConfig 3 reactInitial) = ''quote-1-3'' \<and>
   r_widgets (useWorkspaceStore_removeWidget ''quote-1-3''
       (snd (useWorkspaceStore_addWidget Quote None emptyConfig 3 reactInitial))) = [] \<and>
   r_layouts (useWorkspaceStore_removeWidget ''quote-1-3''
       (snd (useWorkspaceStore_addWidget Quote None emptyConfig 3 reactInitial)))
     = \<lparr>lg = [], md = [], sm = []\<rparr>"
proof -
  have i: "newWidgetId Quote 3 = ''quote-3''"
    by (simp add: newWidgetId_def numberToString.simps digitChar_def)
  have j: "fst (useWorkspaceStore_addWidget Quote None emptyConfig 3 reactInitial) = ''quote-1-3''"
    by (simp add: useWorkspaceStore_addWidget_def Let_def generateWidgetId_def reactInitial_def
        numberToString.simps digitChar_def)
  have r: "r_widgets reactInitial = []" "r_layouts reactInitial = \<lparr>lg = [], md = [], sm = []\<rparr>"
    by (simp_all add: reactInitial_def)
  have v: "validRefs (objects twoWidgets) (layouts (state twoWidgets))"
    by (simp add: validRefs_def twoWidgets_eval)
  have f: "''quote-3'' \<notin> widget_id ` set (widgets (state twoWidgets))"
    by (simp add: twoWidgets_eval)
  have "''quote-3'' \<notin> item_i ` set (layoutItems twoWidgets bp)" for bp
    by (cases bp) (simp_all add: twoWidgets_eval layoutItems_def itemsOf_def)
  then have g: "\<forall>bp. ''quote-3'' \<notin> item_i ` set (layoutItems twoWidgets bp)" ..
  have t: "map widget_id (widgets (state twoWidgets)) = [''orderbook-1'', ''chart-2'']"
    "map item_i (layoutItems twoWidgets MD) = [''orderbook-1'', ''chart-2'']"
    by (simp_all add: twoWidgets_eval layoutItems_def itemsOf_def)
  from register_unregister_roundtrip[of twoWidgets Quote 3 None emptyConfig reactInitial]
  show ?thesis
    unfolding i j using v f g by (simp add: r t)
qed

end
